theory Spec2Isabelle
  imports Main
begin

section \<open>The container launcher as a state transformer\<close>

text \<open>
  This theory embeds \<^verbatim>\<open>launch-claude-container-standalone.py\<close>: the class
  \<^verbatim>\<open>ClaudeContainerLauncher\<close>, its methods and the script's entry point.

  The launcher talks to two external programs (git and podman) and to the file system.
  Neither program is part of the repository, so the model takes them as a parameter: an
  \<^emph>\<open>environment\<close> answers every command line with a return code and the captured
  standard output, and may change its own hidden state and the file system while doing so.
  Every command the launcher issues is recorded, with its answer, in the output trace of
  the state, next to everything the launcher prints. Properties such as "no push is
  attempted" are statements about this trace.

  Two assumptions are built into the model and are not proved: the programs \<^verbatim>\<open>git\<close>
  and \<^verbatim>\<open>podman\<close> can be launched (a command always comes back with a return code),
  and the launcher's own file operations (writing into the script directory, deleting or
  copying a file it has just seen, changing the working directory) succeed. An optional
  string argument that Python tests for truth is false when absent and when empty.
\<close>

subsection \<open>Values\<close>

type_synonym path = string

datatype color = GREEN | BLUE | YELLOW | NC

text \<open>\<^verbatim>\<open>subprocess.CompletedProcess\<close>: the fields the launcher reads.\<close>

datatype proc_result = Completed (returncode: int) (stdout: string)

text \<open>
  What the process does to the outside: \<open>Exec\<close> is one call of \<^verbatim>\<open>subprocess.run\<close>
  with its answer, \<open>Print\<close> one call of \<^verbatim>\<open>print_colored\<close> (standard error), \<open>Echo\<close>
  one plain \<^verbatim>\<open>print\<close>.
\<close>

datatype event = Exec "string list" proc_result | Print color string | Echo string

text \<open>
  The exceptions that can leave a method: \<^verbatim>\<open>sys.exit(n)\<close>, the
  \<^verbatim>\<open>CalledProcessError\<close> of \<^verbatim>\<open>subprocess.run(..., check=True)\<close> (return code and
  command), and any other Python error, named by its class.
\<close>

datatype exn = SystemExit int | CalledProcessError int "string list" | PyError string

text \<open>
  A file-system entry: what kind of thing is at a path, and when it was last modified.
  \<open>JsonObject\<close> is a file that parses as a JSON object, \<open>JsonOther\<close> one that parses as
  another JSON value, \<open>Text\<close> a file that is not JSON.
\<close>

datatype fkind = Directory | Text | JsonObject | JsonOther

datatype fentry = Entry (kind: fkind) (mtime: nat)

type_synonym fsys = "path \<rightharpoonup> fentry"

text \<open>The attributes of \<^verbatim>\<open>self\<close>, as \<^verbatim>\<open>__init__\<close> sets them.\<close>

record launcher =
  script_dir :: path
  temp_dir :: path
  dockerfile :: path
  template_file :: path
  image_name :: string
  container_name :: string
  user_uid :: nat
  user_gid :: nat
  user_name :: string
  cwd :: path
  worktree_path :: "path option"
  worktree_created :: bool
  cleanup_worktree :: bool

text \<open>The namespace returned by \<^verbatim>\<open>parse_args\<close>. Paths are in \<^verbatim>\<open>pathlib\<close>'s normal form.\<close>

record args =
  arg_message :: "string option"
  arg_no_cache :: bool
  arg_permission_mode :: "string option"
  arg_worktree_branch :: "string option"
  arg_keep_worktree :: bool
  arg_no_worktree :: bool
  arg_worktree_path :: "path option"

text \<open>
  The state of one process: the launcher object, the hidden state \<open>ext\<close> of the external
  programs, the file system, the process's working directory, what the operating system
  answers to the queries of \<^verbatim>\<open>__init__\<close> and \<^verbatim>\<open>Path.home()\<close>, the clock (as a
  number for modification times and as the text \<^verbatim>\<open>time.strftime\<close> returns), and the
  trace.
\<close>

record 'e state =
  self :: launcher
  ext :: 'e
  files :: fsys
  pcwd :: path
  home :: path
  script_parent :: path
  mkdtemp_path :: path
  os_uid :: nat
  os_gid :: nat
  env_USER :: "string option"
  clock :: nat
  timestr :: string
  out :: "event list"

text \<open>
  An environment: given its hidden state, the working directory of the caller, the file
  system and a command line, it returns the completed process, its next hidden state and
  the file system the command leaves behind.
\<close>

type_synonym 'e env = "'e \<Rightarrow> path \<Rightarrow> fsys \<Rightarrow> string list \<Rightarrow> proc_result \<times> 'e \<times> fsys"

type_synonym ('e, 'a) prog = "'e state \<Rightarrow> (exn + 'a) \<times> 'e state"

subsection \<open>Control flow\<close>

definition ret :: "'a \<Rightarrow> ('e, 'a) prog" where
  "ret x = (\<lambda>s. (Inr x, s))"

definition raise :: "exn \<Rightarrow> ('e, 'a) prog" where
  "raise e = (\<lambda>s. (Inl e, s))"

definition bind :: "('e, 'a) prog \<Rightarrow> ('a \<Rightarrow> ('e, 'b) prog) \<Rightarrow> ('e, 'b) prog" where
  "bind m f = (\<lambda>s. case m s of (Inl e, s') \<Rightarrow> (Inl e, s') | (Inr x, s') \<Rightarrow> f x s')"

definition andthen :: "('e, 'a) prog \<Rightarrow> ('e, 'b) prog \<Rightarrow> ('e, 'b) prog" where
  "andthen m n = bind m (\<lambda>_. n)"

text \<open>\<^verbatim>\<open>try: m  except subprocess.CalledProcessError: h\<close>\<close>

definition catch_called_process_error :: "('e, 'a) prog \<Rightarrow> ('e, 'a) prog \<Rightarrow> ('e, 'a) prog" where
  "catch_called_process_error m h =
     (\<lambda>s. case m s of
        (Inl (CalledProcessError rc c), s') \<Rightarrow> h s'
      | (r, s') \<Rightarrow> (r, s'))"

text \<open>
  \<^verbatim>\<open>try: m  finally: fin\<close>: the handler always runs; the outcome of \<open>m\<close> survives
  unless the handler itself raises.
\<close>

definition try_finally :: "('e, 'a) prog \<Rightarrow> ('e, unit) prog \<Rightarrow> ('e, 'a) prog" where
  "try_finally m fin =
     (\<lambda>s. case m s of (r, s') \<Rightarrow>
        (case fin s' of (Inl e, s'') \<Rightarrow> (Inl e, s'') | (Inr _, s'') \<Rightarrow> (r, s'')))"

text \<open>Reading the current state, computing from it, and assigning to attributes of self.\<close>

definition reading :: "('e state \<Rightarrow> ('e, 'a) prog) \<Rightarrow> ('e, 'a) prog" where
  "reading g = (\<lambda>s. g s s)"

definition gets :: "('e state \<Rightarrow> 'a) \<Rightarrow> ('e, 'a) prog" where
  "gets f = (\<lambda>s. (Inr (f s), s))"

definition modify_self :: "(launcher \<Rightarrow> launcher) \<Rightarrow> ('e, unit) prog" where
  "modify_self f = (\<lambda>s. (Inr (), s\<lparr>self := f (self s)\<rparr>))"

subsection \<open>Primitives of the Python library\<close>

text \<open>\<^verbatim>\<open>Path / name\<close> for a path in normal form: the root keeps its single slash.\<close>

definition path_join :: "path \<Rightarrow> string \<Rightarrow> path" where
  "path_join p name = (if p = ''/'' then p @ name else p @ ''/'' @ name)"

text \<open>\<^verbatim>\<open>sub in text\<close> on strings.\<close>

fun py_in :: "string \<Rightarrow> string \<Rightarrow> bool" where
  "py_in sub [] = (sub = [])"
| "py_in sub (c # cs) = (take (length sub) (c # cs) = sub \<or> py_in sub cs)"

text \<open>\<^verbatim>\<open>str.isspace\<close> on one character (code points below 256).\<close>

definition py_isspace :: "char \<Rightarrow> bool" where
  "py_isspace c = (of_char c \<in> {9, 10, 11, 12, 13, 28, 29, 30, 31, 32, 133, 160 :: nat})"

text \<open>\<^verbatim>\<open>str.strip()\<close>\<close>

definition strip :: "string \<Rightarrow> string" where
  "strip t = rev (dropWhile py_isspace (rev (dropWhile py_isspace t)))"

text \<open>\<^verbatim>\<open>str(n)\<close> for a natural number.\<close>

fun str_nat :: "nat \<Rightarrow> string" where
  "str_nat n =
     (if n < 10 then [''0123456789'' ! n]
      else str_nat (n div 10) @ [''0123456789'' ! (n mod 10)])"

text \<open>\<^verbatim>\<open>Path.exists()\<close>\<close>

definition path_exists :: "path \<Rightarrow> 'e state \<Rightarrow> bool" where
  "path_exists p s = (files s p \<noteq> None)"

text \<open>\<^verbatim>\<open>print_colored\<close>\<close>

definition print_colored :: "string \<Rightarrow> color \<Rightarrow> ('e, unit) prog" where
  "print_colored msg c = (\<lambda>s. (Inr (), s\<lparr>out := out s @ [Print c msg]\<rparr>))"

text \<open>\<^verbatim>\<open>print(msg)\<close>\<close>

definition echo :: "string \<Rightarrow> ('e, unit) prog" where
  "echo msg = (\<lambda>s. (Inr (), s\<lparr>out := out s @ [Echo msg]\<rparr>))"

text \<open>\<^verbatim>\<open>subprocess.run(cmd)\<close>: ask the environment, record the call.\<close>

definition subprocess_run :: "'e env \<Rightarrow> string list \<Rightarrow> ('e, proc_result) prog" where
  "subprocess_run env cmd =
     (\<lambda>s. case env (ext s) (pcwd s) (files s) cmd of
        (r, e', fs') \<Rightarrow> (Inr r, s\<lparr>ext := e', files := fs', out := out s @ [Exec cmd r]\<rparr>))"

text \<open>\<^verbatim>\<open>subprocess.run(cmd, check=True)\<close>\<close>

definition subprocess_run_check :: "'e env \<Rightarrow> string list \<Rightarrow> ('e, proc_result) prog" where
  "subprocess_run_check env cmd =
     bind (subprocess_run env cmd)
       (\<lambda>r. if returncode r \<noteq> 0 then raise (CalledProcessError (returncode r) cmd) else ret r)"

text \<open>
  File-system operations of the launcher itself. The source guards each of them with
  \<^verbatim>\<open>exists()\<close>; on a path that exists they are taken to succeed.
  \<^verbatim>\<open>shutil.copy2(src, dst)\<close> copies contents and modification time.
\<close>

definition copy2 :: "path \<Rightarrow> path \<Rightarrow> ('e, unit) prog" where
  "copy2 src dst =
     (\<lambda>s. case files s src of
        None \<Rightarrow> (Inl (PyError ''FileNotFoundError''), s)
      | Some e \<Rightarrow> (Inr (), s\<lparr>files := (files s)(dst \<mapsto> e)\<rparr>))"

text \<open>\<^verbatim>\<open>Path.unlink()\<close>\<close>

definition unlink :: "path \<Rightarrow> ('e, unit) prog" where
  "unlink p =
     (\<lambda>s. case files s p of
        None \<Rightarrow> (Inl (PyError ''FileNotFoundError''), s)
      | Some e \<Rightarrow> (Inr (), s\<lparr>files := (files s)(p := None)\<rparr>))"

text \<open>\<^verbatim>\<open>Path.write_text\<close> and \<^verbatim>\<open>json.dump\<close>: a new entry of the given kind.\<close>

definition write_file :: "path \<Rightarrow> fkind \<Rightarrow> ('e, unit) prog" where
  "write_file p k = (\<lambda>s. (Inr (), s\<lparr>files := (files s)(p \<mapsto> Entry k (clock s))\<rparr>))"

text \<open>
  \<^verbatim>\<open>os.chdir\<close>. The launcher changes into a path it has just seen to exist, and back
  into the directory it came from; both are taken to succeed.
\<close>

definition chdir :: "path \<Rightarrow> ('e, unit) prog" where
  "chdir p = (\<lambda>s. (Inr (), s\<lparr>pcwd := p\<rparr>))"

text \<open>\<^verbatim>\<open>shutil.rmtree(d, ignore_errors=True)\<close>: the directory and everything below it.\<close>

definition rmtree :: "path \<Rightarrow> ('e, unit) prog" where
  "rmtree d =
     (\<lambda>s. (Inr (), s\<lparr>files :=
        (\<lambda>p. if p = d \<or> take (length d + 1) p = d @ ''/'' then None else files s p)\<rparr>))"

text \<open>
  \<^verbatim>\<open>json.load(open(p))\<close>: the kind of JSON value read, or the error
  (\<^verbatim>\<open>JSONDecodeError\<close> and \<^verbatim>\<open>IOError\<close> are the ones the caller catches).
\<close>

datatype load_error = JSONDecodeError | IOError

definition json_load :: "path \<Rightarrow> 'e state \<Rightarrow> load_error + fkind" where
  "json_load p s =
     (case files s p of
        None \<Rightarrow> Inl IOError
      | Some (Entry Directory t) \<Rightarrow> Inl IOError
      | Some (Entry Text t) \<Rightarrow> Inl JSONDecodeError
      | Some (Entry k t) \<Rightarrow> Inr k)"

definition sq :: string where "sq = [CHR 0x27]"

definition dq :: string where "dq = [CHR 0x22]"

section \<open>The methods of the launcher\<close>

text \<open>\<^verbatim>\<open>__init__\<close>: extract the embedded files into a fresh directory, read the identity.\<close>

definition init :: "('e, unit) prog" where
  "init =
     (\<lambda>s. let td = mkdtemp_path s;
               df = path_join td ''claude-code-ubuntu.dockerfile'';
               tf = path_join td ''claude.template.json''
           in (Inr (),
               s\<lparr>self :=
                   \<lparr>script_dir = script_parent s, temp_dir = td, dockerfile = df,
                    template_file = tf, image_name = ''claude-code-ubuntu'',
                    container_name = ''claude-code-dev'', user_uid = os_uid s,
                    user_gid = os_gid s,
                    user_name = (case env_USER s of None \<Rightarrow> ''user'' | Some u \<Rightarrow> u),
                    cwd = pcwd s, worktree_path = None, worktree_created = False,
                    cleanup_worktree = True\<rparr>,
                 files := (files s)(td \<mapsto> Entry Directory (clock s),
                                    df \<mapsto> Entry Text (clock s),
                                    tf \<mapsto> Entry JsonObject (clock s))\<rparr>))"

definition is_git_repo :: "'e env \<Rightarrow> ('e, bool) prog" where
  "is_git_repo env =
     catch_called_process_error
       (andthen (subprocess_run_check env [''git'', ''rev-parse'', ''--git-dir'']) (ret True))
       (ret False)"

definition create_worktree :: "'e env \<Rightarrow> string \<Rightarrow> ('e, path) prog" where
  "create_worktree env branch_or_commit =
     bind (is_git_repo env) (\<lambda>repo.
       if \<not> repo then
         andthen
           (print_colored
              ''Error: Not in a git repository. Worktree requires a git repository.'' YELLOW)
           (raise (SystemExit 1))
       else
         reading (\<lambda>s.
           let worktree_path = path_join (cwd (self s)) ''claude_wt'' in
           andthen
             (print_colored
                (''Creating git worktree '' @ sq @ ''claude_wt'' @ sq @ '' from '' @ sq
                   @ branch_or_commit @ sq @ ''...'') GREEN)
             (catch_called_process_error
                (andthen
                   (subprocess_run_check env
                      [''git'', ''worktree'', ''add'', ''-b'', ''claude_wt'', ''wt_temp/''])
                (andthen (print_colored (''Worktree created at: '' @ worktree_path) BLUE)
                (andthen (modify_self (\<lambda>l. l\<lparr>worktree_created := True\<rparr>))
                   (ret worktree_path))))
                (andthen
                   (print_colored
                      ''Failed to create worktree. Using current directory instead.'' YELLOW)
                   (ret (cwd (self s)))))))"

definition cleanup_worktree_if_needed :: "'e env \<Rightarrow> ('e, unit) prog" where
  "cleanup_worktree_if_needed env =
     reading (\<lambda>s.
       case worktree_path (self s) of
         None \<Rightarrow> ret ()
       | Some wp \<Rightarrow>
           if cleanup_worktree (self s) \<and> worktree_created (self s) then
             andthen (print_colored ''Cleaning up worktree...'' GREEN)
               (bind (subprocess_run env [''git'', ''worktree'', ''list'', ''--porcelain''])
                  (\<lambda>result.
                     if py_in wp (stdout result) then
                       andthen
                         (subprocess_run env [''git'', ''worktree'', ''remove'', wp, ''--force''])
                         (ret ())
                     else ret ()))
           else ret ())"

text \<open>
  \<^verbatim>\<open>prepare_claude_config\<close>. Only the kinds of the files matter here: the values merged
  into the template play no part in what follows. The text of the caught exception, which
  the source appends to its message, is left out.
\<close>

definition prepare_claude_config :: "('e, unit) prog" where
  "prepare_claude_config =
     andthen (print_colored ''Preparing Claude configuration files...'' GREEN)
       (reading (\<lambda>s.
          let credentials_src = path_join (path_join (home s) ''.claude'') ''.credentials.json'';
              credentials_dest = path_join (script_dir (self s)) ''.credentials.json'';
              user_config = path_join (home s) ''.claude.json'';
              config_dest = path_join (script_dir (self s)) ''.claude.json''
          in
          andthen
            (if path_exists credentials_src s then
               andthen (copy2 credentials_src credentials_dest)
                 (print_colored ''Copied credentials file'' BLUE)
             else
               andthen
                 (print_colored ''Warning: ~/.claude/.credentials.json not found'' YELLOW)
                 (raise (SystemExit 1)))
            (reading (\<lambda>s.
               if path_exists user_config s \<and> path_exists (template_file (self s)) s then
                 (case json_load user_config s of
                    Inl err \<Rightarrow>
                      andthen (print_colored ''Error processing configuration: '' YELLOW)
                        (raise (SystemExit 1))
                  | Inr user_data \<Rightarrow>
                      (case json_load (template_file (self s)) s of
                         Inl err \<Rightarrow>
                           andthen (print_colored ''Error processing configuration: '' YELLOW)
                             (raise (SystemExit 1))
                       | Inr template_data \<Rightarrow>
                           if user_data \<noteq> JsonObject then raise (PyError ''AttributeError'')
                           else if template_data \<noteq> JsonObject
                           then raise (PyError ''TypeError'')
                           else
                             andthen (write_file config_dest JsonObject)
                               (print_colored
                                  ''Created .claude.json with user configuration'' BLUE)))
               else
                 andthen
                   (print_colored
                      ''Warning: ~/.claude.json or template file not found'' YELLOW)
                   (raise (SystemExit 1))))))"

definition should_build_image :: "'e env \<Rightarrow> bool \<Rightarrow> ('e, bool) prog" where
  "should_build_image env no_cache =
     (if no_cache then ret True
      else
        reading (\<lambda>s.
          bind (subprocess_run env [''podman'', ''image'', ''exists'', image_name (self s)])
            (\<lambda>result.
               if returncode result \<noteq> 0 then ret True
               else
                 bind
                   (subprocess_run env
                      [''podman'', ''image'', ''inspect'', image_name (self s),
                       ''--format'', ''{{.Created}}''])
                   (\<lambda>result.
                      if returncode result = 0
                      then gets (\<lambda>s. path_exists (dockerfile (self s)) s)
                      else ret False))))"

definition build_args :: "launcher \<Rightarrow> bool \<Rightarrow> string list" where
  "build_args l no_cache =
     [''podman'', ''build'',
      ''-f'', dockerfile l,
      ''--build-arg'', ''USER_ID='' @ str_nat (user_uid l),
      ''--build-arg'', ''GROUP_ID='' @ str_nat (user_gid l),
      ''--build-arg'', ''USER_NAME='' @ user_name l,
      ''-t'', image_name l]
     @ (if no_cache then [''--no-cache''] else [])
     @ [script_dir l]"

definition build_image :: "'e env \<Rightarrow> bool \<Rightarrow> ('e, unit) prog" where
  "build_image env no_cache =
     andthen (print_colored ''Building Claude Code Ubuntu image...'' GREEN)
       (reading (\<lambda>s.
          andthen (subprocess_run_check env (build_args (self s) no_cache)) (ret ())))"

text \<open>The loop of \<^verbatim>\<open>cleanup_temp_files\<close> over its list of paths.\<close>

fun unlink_existing :: "path list \<Rightarrow> ('e, unit) prog" where
  "unlink_existing [] = ret ()"
| "unlink_existing (temp_file # rest) =
     andthen (reading (\<lambda>s. if path_exists temp_file s then unlink temp_file else ret ()))
       (unlink_existing rest)"

definition cleanup_temp_files :: "('e, unit) prog" where
  "cleanup_temp_files =
     andthen (print_colored ''Cleaning up temporary files...'' GREEN)
       (reading (\<lambda>s.
          unlink_existing
            [path_join (script_dir (self s)) ''.credentials.json'',
             path_join (script_dir (self s)) ''.claude.json'']))"

definition stop_existing_container :: "'e env \<Rightarrow> ('e, unit) prog" where
  "stop_existing_container env =
     reading (\<lambda>s.
       bind (subprocess_run env [''podman'', ''container'', ''exists'', container_name (self s)])
         (\<lambda>result.
            if returncode result = 0 then
              andthen (print_colored ''Stopping existing container...'' YELLOW)
             (andthen (subprocess_run env [''podman'', ''stop'', container_name (self s)])
             (andthen (subprocess_run env [''podman'', ''rm'', container_name (self s)])
                (ret ())))
            else ret ()))"

text \<open>The shell command of \<^verbatim>\<open>run_container\<close> for a one-shot message.\<close>

definition claude_cmd :: "string \<Rightarrow> string option \<Rightarrow> string" where
  "claude_cmd msg permission_mode =
     ''claude''
     @ (case permission_mode of
          None \<Rightarrow> '' --dangerously-skip-permissions''
        | Some m \<Rightarrow>
            if m \<noteq> [] then '' --permission-mode '' @ m
            else '' --dangerously-skip-permissions'')
     @ '' -p '' @ dq @ msg @ dq @ '' --output-format stream-json --verbose''"

definition run_args :: "launcher \<Rightarrow> path \<Rightarrow> string list" where
  "run_args l mount_path =
     [''podman'', ''run'', ''-it'',
      ''--name'', container_name l,
      ''--hostname'', ''claude-dev'',
      ''--user'', str_nat (user_uid l) @ '':'' @ str_nat (user_gid l),
      ''--volume'', mount_path @ '':/home/'' @ user_name l @ ''/dev:Z'',
      ''--userns=keep-id'',
      image_name l]"

definition run_container :: "'e env \<Rightarrow> path \<Rightarrow> string option \<Rightarrow> string option \<Rightarrow> ('e, unit) prog"
  where
  "run_container env mount_path msg permission_mode =
     reading (\<lambda>s.
       andthen (print_colored ''Starting Claude Code container...'' GREEN)
      (andthen (print_colored (''Container name: '' @ container_name (self s)) BLUE)
      (andthen
         (print_colored (''Working directory: /home/'' @ user_name (self s) @ ''/dev'') BLUE)
      (andthen (print_colored (''Host directory mounted: '' @ mount_path) BLUE)
      (andthen
         (if mount_path \<noteq> cwd (self s) then
            print_colored
              (''Worktree will be ''
                 @ (if \<not> cleanup_worktree (self s) then ''preserved'' else ''cleaned up'')
                 @ '' after container stops'') BLUE
          else ret ())
      (andthen (print_colored (''Type '' @ sq @ ''claude'' @ sq @ '' to start Claude Code'') BLUE)
      (andthen (print_colored (''Type '' @ sq @ ''exit'' @ sq @ '' to stop the container'') BLUE)
      (andthen (echo [])
         (case msg of
            None \<Rightarrow> andthen (subprocess_run env (run_args (self s) mount_path)) (ret ())
          | Some m \<Rightarrow>
              if m \<noteq> [] then
                andthen
                  (print_colored
                     (''Running '' @ claude_cmd m permission_mode
                        @ '' after container starts...'') BLUE)
                  (andthen
                     (subprocess_run env
                        (run_args (self s) mount_path
                           @ [''bash'', ''-c'', claude_cmd m permission_mode]))
                     (ret ()))
              else
                andthen (subprocess_run env (run_args (self s) mount_path)) (ret ()))))))))))"

text \<open>
  The "Try to push" block of \<^verbatim>\<open>handle_worktree_post_processing\<close>: a push to
  \<^verbatim>\<open>origin\<close>, and inside its exception handler a second push that sets the upstream,
  with its own handler.
\<close>

definition push_with_fallback :: "'e env \<Rightarrow> string \<Rightarrow> ('e, unit) prog" where
  "push_with_fallback env current_branch =
     catch_called_process_error
       (andthen
          (subprocess_run_check env [''git'', ''push'', ''origin'', current_branch])
          (print_colored (''Changes pushed to origin/'' @ current_branch) GREEN))
       (catch_called_process_error
          (andthen
             (subprocess_run_check env
                [''git'', ''push'', ''--set-upstream'', ''origin'', current_branch])
             (print_colored
                (''New branch created and pushed to origin/'' @ current_branch) GREEN))
          (print_colored ''Warning: Failed to push changes to remote'' YELLOW))"

text \<open>
  The commit-and-push part of \<^verbatim>\<open>handle_worktree_post_processing\<close>, entered when
  \<^verbatim>\<open>has_changes\<close> is true.
\<close>

definition commit_and_push :: "'e env \<Rightarrow> ('e, unit) prog" where
  "commit_and_push env =
     andthen
       (print_colored ''Changes detected in worktree, committing and pushing...'' BLUE)
    (andthen (subprocess_run_check env [''git'', ''add'', ''-A''])
    (bind (gets (\<lambda>s. ''chore: claude code container changes '' @ timestr s))
       (\<lambda>commit_msg.
     andthen (subprocess_run_check env [''git'', ''commit'', ''-m'', commit_msg])
    (bind (subprocess_run_check env [''git'', ''branch'', ''--show-current''])
       (\<lambda>result.
     let current_branch = strip (stdout result) in
     push_with_fallback env current_branch)))))"

definition handle_worktree_post_processing :: "'e env \<Rightarrow> ('e, unit) prog" where
  "handle_worktree_post_processing env =
     reading (\<lambda>s.
       case worktree_path (self s) of
         None \<Rightarrow> ret ()
       | Some wp \<Rightarrow>
           if \<not> (worktree_created (self s) \<and> path_exists wp s) then ret ()
           else
             andthen (print_colored ''Processing worktree changes...'' GREEN)
               (bind (gets pcwd) (\<lambda>original_cwd.
                  try_finally
                    (andthen (chdir wp)
                    (bind (subprocess_run env [''git'', ''diff'', ''--quiet''])
                       (\<lambda>result.
                    let has_changes = (if returncode result \<noteq> 0 then True else False) in
                     bind (subprocess_run env [''git'', ''diff'', ''--cached'', ''--quiet''])
                       (\<lambda>result.
                    let has_changes = (if returncode result \<noteq> 0 then True else has_changes) in
                     bind
                       (subprocess_run env
                          [''git'', ''ls-files'', ''--others'', ''--exclude-standard''])
                       (\<lambda>result.
                    let has_changes =
                          (if strip (stdout result) \<noteq> [] then True else has_changes) in
                     if has_changes then commit_and_push env
                     else print_colored ''No changes detected in worktree'' BLUE)))))
                    (chdir original_cwd))))"

text \<open>\<^verbatim>\<open>_cleanup_temp_dir\<close>, registered with \<^verbatim>\<open>atexit\<close> by \<^verbatim>\<open>__init__\<close>.\<close>

definition cleanup_temp_dir :: "('e, unit) prog" where
  "cleanup_temp_dir =
     reading (\<lambda>s.
       if path_exists (temp_dir (self s)) s then rmtree (temp_dir (self s)) else ret ())"

text \<open>The part of \<^verbatim>\<open>run\<close> inside \<^verbatim>\<open>try\<close>, for a given mount path.\<close>

definition session :: "'e env \<Rightarrow> args \<Rightarrow> path \<Rightarrow> ('e, unit) prog" where
  "session env a mount_path =
     andthen prepare_claude_config
    (bind (should_build_image env (arg_no_cache a))
       (\<lambda>build.
     andthen (if build then build_image env (arg_no_cache a) else ret ())
    (andthen cleanup_temp_files
    (andthen (stop_existing_container env)
    (andthen (run_container env mount_path (arg_message a) (arg_permission_mode a))
    (andthen (print_colored ''Container stopped'' GREEN)
       (handle_worktree_post_processing env)))))))"

text \<open>The part of \<^verbatim>\<open>run\<close> that chooses the mount path ("Setup working directory").\<close>

definition setup_working_directory :: "'e env \<Rightarrow> args \<Rightarrow> ('e, path) prog" where
  "setup_working_directory env a =
     reading (\<lambda>s.
       let create =
             bind
               (create_worktree env
                  (case arg_worktree_branch a of
                     None \<Rightarrow> ''HEAD''
                   | Some b \<Rightarrow> if b \<noteq> [] then b else ''HEAD''))
               (\<lambda>wp. andthen (modify_self (\<lambda>l. l\<lparr>worktree_path := Some wp\<rparr>)) (ret wp))
       in
       if \<not> arg_no_worktree a then
         (case arg_worktree_path a of
            None \<Rightarrow> create
          | Some p \<Rightarrow>
              if path_exists p s then
                andthen (print_colored (''Using existing worktree at: '' @ p) BLUE)
                  (andthen
                     (modify_self (\<lambda>l. l\<lparr>worktree_path := Some p, cleanup_worktree := False\<rparr>))
                     (ret p))
              else create)
       else
         andthen (print_colored ''Using current directory (no worktree)'' BLUE)
           (ret (cwd (self s))))"

definition run :: "'e env \<Rightarrow> args \<Rightarrow> ('e, unit) prog" where
  "run env a =
     andthen (print_colored ''Claude Code Container Launcher'' BLUE)
       (reading (\<lambda>s.
          if \<not> path_exists (dockerfile (self s)) s then
            andthen
              (print_colored
                 (''Warning: '' @ dockerfile (self s) @ '' not found in script directory'')
                 YELLOW)
              (raise (SystemExit 1))
          else
            andthen
              (if arg_keep_worktree a
               then modify_self (\<lambda>l. l\<lparr>cleanup_worktree := False\<rparr>)
               else ret ())
              (bind (setup_working_directory env a)
                 (\<lambda>mount_path.
                    try_finally (session env a mount_path)
                      (cleanup_worktree_if_needed env)))))"

text \<open>
  The exit status Python gives the process: the argument of \<^verbatim>\<open>sys.exit\<close>, 1 after an
  uncaught exception, 0 otherwise.
\<close>

definition exit_code :: "exn + unit \<Rightarrow> int" where
  "exit_code r = (case r of Inr _ \<Rightarrow> 0 | Inl (SystemExit n) \<Rightarrow> n | Inl _ \<Rightarrow> 1)"

text \<open>
  The script's entry point: construct the launcher, run it, and let the \<^verbatim>\<open>atexit\<close>
  hook remove the extracted files. The result is the exit status and the final state.
\<close>

definition main :: "'e env \<Rightarrow> args \<Rightarrow> 'e state \<Rightarrow> int \<times> 'e state" where
  "main env a s =
     (case andthen init (run env a) s of
        (r, s1) \<Rightarrow> (case cleanup_temp_dir s1 of (_, s2) \<Rightarrow> (exit_code r, s2)))"

section \<open>Reading the trace\<close>

text \<open>The command lines of a trace, in the order they were run.\<close>

fun execs :: "event list \<Rightarrow> string list list" where
  "execs [] = []"
| "execs (Exec c r # es) = c # execs es"
| "execs (Print k m # es) = execs es"
| "execs (Echo m # es) = execs es"

text \<open>What a state has added to the trace of an earlier one.\<close>

definition since :: "'e state \<Rightarrow> 'e state \<Rightarrow> event list" where
  "since s s' = drop (length (out s)) (out s')"

text \<open>The steps of the orchestration, told apart by the leading words of a command line.\<close>

datatype step =
    RepoCheck | WorktreeAdd | WorktreeList | WorktreeRemove
  | ChangeQuery | Stage | Commit | BranchQuery | Push
  | ImageQuery | ImageBuild
  | ContainerExists | ContainerStop | ContainerRemove | ContainerRun
  | Other

definition classify :: "string list \<Rightarrow> step" where
  "classify c =
     (if take 2 c = [''git'', ''rev-parse''] then RepoCheck
      else if take 3 c = [''git'', ''worktree'', ''add''] then WorktreeAdd
      else if take 3 c = [''git'', ''worktree'', ''list''] then WorktreeList
      else if take 3 c = [''git'', ''worktree'', ''remove''] then WorktreeRemove
      else if take 2 c = [''git'', ''diff''] \<or> take 2 c = [''git'', ''ls-files'']
        then ChangeQuery
      else if take 2 c = [''git'', ''add''] then Stage
      else if take 2 c = [''git'', ''commit''] then Commit
      else if take 2 c = [''git'', ''branch''] then BranchQuery
      else if take 2 c = [''git'', ''push''] then Push
      else if take 2 c = [''podman'', ''image''] then ImageQuery
      else if take 2 c = [''podman'', ''build''] then ImageBuild
      else if take 3 c = [''podman'', ''container'', ''exists''] then ContainerExists
      else if take 2 c = [''podman'', ''stop''] then ContainerStop
      else if take 2 c = [''podman'', ''rm''] then ContainerRemove
      else if take 2 c = [''podman'', ''run''] then ContainerRun
      else Other)"

definition steps :: "event list \<Rightarrow> step list" where
  "steps tr = map classify (execs tr)"

text \<open>The trace a program adds when started in a state.\<close>

definition trace_of :: "('e, 'a) prog \<Rightarrow> 'e state \<Rightarrow> event list" where
  "trace_of f s = since s (snd (f s))"

text \<open>The steps of the change reconciler.\<close>

definition reconcile_steps :: "step set" where
  "reconcile_steps = {ChangeQuery, Stage, Commit, BranchQuery, Push}"

text \<open>The events of a trace that are steps of a given kind, in order.\<close>

fun is_step :: "step set \<Rightarrow> event \<Rightarrow> bool" where
  "is_step K (Exec c r) = (classify c \<in> K)"
| "is_step K (Print k m) = False"
| "is_step K (Echo m) = False"

definition only :: "step set \<Rightarrow> event list \<Rightarrow> event list" where
  "only K tr = filter (is_step K) tr"

section \<open>Concrete environments and hosts\<close>

text \<open>
  A scripted environment: its hidden state is the list of answers still to be given. Each
  command takes the next one; when the list is empty every command succeeds silently.
  It never touches the file system.
\<close>

definition scripted :: "proc_result list env" where
  "scripted tape wd fs cmd =
     (case tape of [] \<Rightarrow> (Completed 0 [], [], fs) | r # rest \<Rightarrow> (r, rest, fs))"


text \<open>
  A host on which the user \<^verbatim>\<open>dev\<close> starts the script \<^verbatim>\<open>/opt/adi/launch.py\<close> in
  \<^verbatim>\<open>/home/dev/project\<close>, with credentials and a profile in the home directory.
\<close>

definition blank :: launcher where
  "blank =
     \<lparr>script_dir = [], temp_dir = [], dockerfile = [], template_file = [], image_name = [],
      container_name = [], user_uid = 0, user_gid = 0, user_name = [], cwd = [],
      worktree_path = None, worktree_created = False, cleanup_worktree = False\<rparr>"

definition host :: "'e \<Rightarrow> 'e state" where
  "host e =
     \<lparr>self = blank, ext = e,
      files = [''/home/dev'' \<mapsto> Entry Directory 1,
               ''/home/dev/project'' \<mapsto> Entry Directory 1,
               ''/home/dev/.claude/.credentials.json'' \<mapsto> Entry JsonObject 2,
               ''/home/dev/.claude.json'' \<mapsto> Entry JsonObject 3,
               ''/opt/adi'' \<mapsto> Entry Directory 1],
      pcwd = ''/home/dev/project'', home = ''/home/dev'', script_parent = ''/opt/adi'',
      mkdtemp_path = ''/tmp/tmpa1'', os_uid = 1000, os_gid = 1000, env_USER = Some ''dev'',
      clock = 50, timestr = ''2025-01-01 12:00:00'', out = []\<rparr>"

text \<open>The arguments of a call without any flag.\<close>

definition no_flags :: args where
  "no_flags =
     \<lparr>arg_message = None, arg_no_cache = False, arg_permission_mode = None,
      arg_worktree_branch = None, arg_keep_worktree = False, arg_no_worktree = False,
      arg_worktree_path = None\<rparr>"

declare str_nat.simps [simp del]


text \<open>The launcher as \<^verbatim>\<open>__init__\<close> leaves it on that host, with a script of answers.\<close>

definition fresh :: "proc_result list \<Rightarrow> proc_result list state" where
  "fresh tape = snd (init (host tape))"

text \<open>The same launcher once it has created a worktree that exists on disk.\<close>

definition with_worktree :: "proc_result list \<Rightarrow> proc_result list state" where
  "with_worktree tape =
     (fresh tape)\<lparr>self := (self (fresh tape))
                     \<lparr>worktree_path := Some ''/home/dev/project/claude_wt'',
                      worktree_created := True\<rparr>,
                   files := (files (fresh tape))
                     (''/home/dev/project/claude_wt'' \<mapsto> Entry Directory 50)\<rparr>"

text \<open>
  A script of answers for a run in which the session leaves an unstaged change and both
  pushes fail.
\<close>

definition failing_push_script :: "proc_result list" where
  "failing_push_script =
     [Completed 0 [], Completed 0 [], Completed 0 [], Completed 0 [], Completed 0 [],
      Completed 1 [], Completed 0 [], Completed 1 [], Completed 0 [], Completed 0 [],
      Completed 0 [], Completed 0 [], Completed 0 (''claude_wt'' @ [CHR 0x0A]),
      Completed 1 [], Completed 1 []]"

text \<open>The launcher as \<^verbatim>\<open>__init__\<close> leaves it on that host, for any environment.\<close>

definition launched :: "'e \<Rightarrow> 'e state" where
  "launched e = snd (init (host e))"



text \<open>
  The state in which \<^verbatim>\<open>run\<close> starts to set up the working directory: the banner is
  printed and the keep-worktree flag is taken into account.
\<close>

definition entered :: "args \<Rightarrow> 'e state \<Rightarrow> 'e state" where
  "entered a s =
     (if arg_keep_worktree a
      then s\<lparr>out := out s @ [Print BLUE ''Claude Code Container Launcher''],
             self := (self s)\<lparr>cleanup_worktree := False\<rparr>\<rparr>
      else s\<lparr>out := out s @ [Print BLUE ''Claude Code Container Launcher'']\<rparr>)"

text \<open>
  The launcher on a host where a directory \<^verbatim>\<open>claude_wt\<close> is already present in the
  current directory.
\<close>

definition stale_dir :: "proc_result list \<Rightarrow> proc_result list state" where
  "stale_dir tape =
     (fresh tape)\<lparr>files := (files (fresh tape))
        (''/home/dev/project/claude_wt'' \<mapsto> Entry Directory 40)\<rparr>"

text \<open>
  A git that keeps a registry of worktrees: the paths registered, each with the branch
  checked out there. \<^verbatim>\<open>git worktree add -b <branch> <path>\<close> registers the path,
  taken relative to the directory the command runs in, and creates the directory; it
  fails if the branch is already checked out in a registered worktree, if the path is
  registered, or if something exists at the path. \<^verbatim>\<open>git worktree list --porcelain\<close>
  prints the registry. \<^verbatim>\<open>git worktree remove <path> --force\<close> takes a registered path
  out of the registry and deletes the directory. Every other command succeeds silently.
\<close>

type_synonym registry = "(path \<times> string) list"

definition drop_slash :: "string \<Rightarrow> string" where
  "drop_slash p = (if p \<noteq> [] \<and> last p = CHR ''/'' then butlast p else p)"

definition porcelain :: "registry \<Rightarrow> string" where
  "porcelain reg =
     concat (map (\<lambda>e. ''worktree '' @ fst e @ [CHR 0x0A] @
                       ''branch refs/heads/'' @ snd e @ [CHR 0x0A, CHR 0x0A]) reg)"

definition worktree_git :: "registry env" where
  "worktree_git reg wd fs cmd =
     (case cmd of
        [g, w, v, flag, b, p] \<Rightarrow>
          if [g, w, v, flag] = [''git'', ''worktree'', ''add'', ''-b''] then
            (let target = path_join wd (drop_slash p) in
             if b \<in> set (map snd reg) \<or> target \<in> set (map fst reg) \<or> fs target \<noteq> None
             then (Completed 128 [], reg, fs)
             else (Completed 0 [], reg @ [(target, b)],
                   fs(target \<mapsto> Entry Directory 0)))
          else (Completed 0 [], reg, fs)
      | [g, w, v, p, f] \<Rightarrow>
          if [g, w, v, f] = [''git'', ''worktree'', ''remove'', ''--force''] then
            (if p \<in> set (map fst reg)
             then (Completed 0 [], filter (\<lambda>e. fst e \<noteq> p) reg, fs(p := None))
             else (Completed 128 [], reg, fs))
          else (Completed 0 [], reg, fs)
      | [g, w, v, f] \<Rightarrow>
          if [g, w, v, f] = [''git'', ''worktree'', ''list'', ''--porcelain'']
          then (Completed 0 (porcelain reg), reg, fs)
          else (Completed 0 [], reg, fs)
      | _ \<Rightarrow> (Completed 0 [], reg, fs))"

text \<open>
  The launcher as \<^verbatim>\<open>__init__\<close> leaves it in a repository that already has a worktree
  at \<^verbatim>\<open>claude_wt\<close>, with the branch \<^verbatim>\<open>feature\<close> checked out there.
\<close>

definition occupied :: "registry state" where
  "occupied =
     (launched [(''/home/dev/project'', ''main''),
                (''/home/dev/project/claude_wt'', ''feature'')])
       \<lparr>files :=
          (files (launched [(''/home/dev/project'', ''main''),
                            (''/home/dev/project/claude_wt'', ''feature'')]))
            (''/home/dev/project/claude_wt'' \<mapsto> Entry Directory 40)\<rparr>"


section \<open>Footprints\<close>

text \<open>
  \<open>footprint_on P F f\<close>: started with a launcher that satisfies \<open>P\<close>, the program \<open>f\<close>
  only adds to the trace, every command it runs is a step in \<open>F\<close>, and the launcher
  satisfies \<open>P\<close> afterwards.
\<close>

definition footprint_on :: "(launcher \<Rightarrow> bool) \<Rightarrow> step set \<Rightarrow> ('e, 'a) prog \<Rightarrow> bool" where
  "footprint_on P F f =
     (\<forall>s. P (self s) \<longrightarrow>
        P (self (snd (f s))) \<and> (\<exists>tr. out (snd (f s)) = out s @ tr \<and> set (steps tr) \<subseteq> F))"

text \<open>A program that only ever adds to the trace.\<close>

definition appends :: "('e, 'a) prog \<Rightarrow> bool" where
  "appends f = footprint_on (\<lambda>_. True) UNIV f"

text \<open>What the environment answers to a command in a given state.\<close>

definition answer :: "'e env \<Rightarrow> string list \<Rightarrow> 'e state \<Rightarrow> proc_result" where
  "answer env c s = fst (env (ext s) (pcwd s) (files s) c)"

text \<open>
  What may be seen of pushes in a trace that ends with a given outcome: none at all; or
  the outcome is a normal return and either one push that succeeded, or a failed push
  followed by exactly one push that sets the upstream, with a warning in the trace if that
  one failed too.
\<close>

definition push_outcome :: "event list \<Rightarrow> exn + unit \<Rightarrow> bool" where
  "push_outcome tr r =
     (only {Push} tr = [] \<or>
      r = Inr () \<and>
      ((\<exists>b q. only {Push} tr = [Exec [''git'', ''push'', ''origin'', b] q] \<and> returncode q = 0) \<or>
       (\<exists>b q q'. only {Push} tr =
            [Exec [''git'', ''push'', ''origin'', b] q,
             Exec [''git'', ''push'', ''--set-upstream'', ''origin'', b] q'] \<and>
          returncode q \<noteq> 0 \<and>
          (returncode q' \<noteq> 0 \<longrightarrow>
             Print YELLOW ''Warning: Failed to push changes to remote'' \<in> set tr))))"

text \<open>Programs all of whose runs have such pushes, and programs that never push.\<close>

definition softly :: "('e, unit) prog \<Rightarrow> bool" where
  "softly f = (\<forall>s. push_outcome (trace_of f s) (fst (f s)))"

definition quiet :: "('e, 'a) prog \<Rightarrow> bool" where
  "quiet f = footprint_on (\<lambda>_. True) (UNIV - {Push}) f"

section \<open>Basic facts\<close>

lemmas prog_defs = ret_def raise_def bind_def andthen_def catch_called_process_error_def
  try_finally_def reading_def gets_def modify_self_def print_colored_def echo_def
  subprocess_run_def subprocess_run_check_def

lemmas method_defs = run_def setup_working_directory_def create_worktree_def is_git_repo_def
  session_def prepare_claude_config_def should_build_image_def build_image_def
  cleanup_temp_files_def stop_existing_container_def run_container_def
  handle_worktree_post_processing_def commit_and_push_def push_with_fallback_def
  cleanup_worktree_if_needed_def
  cleanup_temp_dir_def main_def init_def exit_code_def

lemma execs_append [simp]: "execs (a @ b) = execs a @ execs b"
  by (induction a rule: execs.induct) auto

lemma steps_append [simp]: "steps (a @ b) = steps a @ steps b"
  by (simp add: steps_def)

lemma steps_simps [simp]:
  "steps [] = []"
  "steps (Exec c r # tr) = classify c # steps tr"
  "steps (Print k m # tr) = steps tr"
  "steps (Echo m # tr) = steps tr"
  by (simp_all add: steps_def)

lemma footprint_onD:
  assumes "footprint_on P F f" and "P (self s)" and "f s = (r, s')"
  shows "P (self s')" and "\<exists>tr. out s' = out s @ tr \<and> set (steps tr) \<subseteq> F"
  using assms unfolding footprint_on_def by (metis snd_conv)+

lemma footprint_on_mono: "footprint_on P F f \<Longrightarrow> F \<subseteq> G \<Longrightarrow> footprint_on P G f"
  unfolding footprint_on_def by blast

lemma footprint_on_silent:
  "(\<And>s. self (snd (f s)) = self s) \<Longrightarrow> (\<And>s. out (snd (f s)) = out s) \<Longrightarrow> footprint_on P F f"
  by (simp add: footprint_on_def)

lemma footprint_on_ret: "footprint_on P F (ret x)"
  by (rule footprint_on_silent) (simp_all add: ret_def)

lemma footprint_on_raise: "footprint_on P F (raise e)"
  by (rule footprint_on_silent) (simp_all add: raise_def)

lemma footprint_on_gets: "footprint_on P F (gets f)"
  by (rule footprint_on_silent) (simp_all add: gets_def)

lemma footprint_on_copy2: "footprint_on P F (copy2 a b)"
  by (rule footprint_on_silent) (simp_all add: copy2_def split: option.splits)

lemma footprint_on_unlink: "footprint_on P F (unlink a)"
  by (rule footprint_on_silent) (simp_all add: unlink_def split: option.splits)

lemma footprint_on_write_file: "footprint_on P F (write_file a k)"
  by (rule footprint_on_silent) (simp_all add: write_file_def)

lemma footprint_on_chdir: "footprint_on P F (chdir a)"
  by (rule footprint_on_silent) (simp_all add: chdir_def)

lemma footprint_on_modify_self: "(\<And>l. P l \<Longrightarrow> P (f l)) \<Longrightarrow> footprint_on P F (modify_self f)"
  by (simp add: footprint_on_def modify_self_def)

lemma footprint_on_print: "footprint_on P F (print_colored m c)"
  by (simp add: footprint_on_def print_colored_def)

lemma footprint_on_echo: "footprint_on P F (echo m)"
  by (simp add: footprint_on_def echo_def)

lemma footprint_on_run: "classify c \<in> F \<Longrightarrow> footprint_on P F (subprocess_run env c)"
  by (simp add: footprint_on_def subprocess_run_def case_prod_unfold)

lemma footprint_on_bind:
  assumes "footprint_on P F m" and "\<And>x. footprint_on P F (f x)"
  shows "footprint_on P F (bind m f)"
  unfolding footprint_on_def
proof (intro allI impI)
  fix s :: "'a state"
  assume P: "P (self s)"
  obtain r s1 where m: "m s = (r, s1)" by (cases "m s")
  from footprint_onD [OF assms(1) P m] obtain tr1
    where t1: "P (self s1)" "out s1 = out s @ tr1" "set (steps tr1) \<subseteq> F"
    by blast
  show "P (self (snd (bind m f s))) \<and>
        (\<exists>tr. out (snd (bind m f s)) = out s @ tr \<and> set (steps tr) \<subseteq> F)"
  proof (cases r)
    case (Inl e)
    then show ?thesis using m t1 by (simp add: bind_def)
  next
    case (Inr x)
    obtain r2 s2 where f: "f x s1 = (r2, s2)" by (cases "f x s1")
    from footprint_onD [OF assms(2) t1(1) f] obtain tr2
      where "P (self s2)" "out s2 = out s1 @ tr2" "set (steps tr2) \<subseteq> F"
      by blast
    then show ?thesis using Inr m t1 f by (simp add: bind_def)
  qed
qed

lemma footprint_on_andthen:
  "footprint_on P F m \<Longrightarrow> footprint_on P F n \<Longrightarrow> footprint_on P F (andthen m n)"
  unfolding andthen_def by (rule footprint_on_bind)

lemma footprint_on_reading:
  "(\<And>s. P (self s) \<Longrightarrow> footprint_on P F (g s)) \<Longrightarrow> footprint_on P F (reading g)"
  unfolding footprint_on_def reading_def by blast

lemma footprint_on_catch:
  assumes "footprint_on P F m" and "footprint_on P F h"
  shows "footprint_on P F (catch_called_process_error m h)"
  unfolding footprint_on_def
proof (intro allI impI)
  fix s :: "'a state"
  assume P: "P (self s)"
  obtain r s1 where m: "m s = (r, s1)" by (cases "m s")
  from footprint_onD [OF assms(1) P m] obtain tr1
    where t1: "P (self s1)" "out s1 = out s @ tr1" "set (steps tr1) \<subseteq> F"
    by blast
  obtain r2 s2 where h: "h s1 = (r2, s2)" by (cases "h s1")
  from footprint_onD [OF assms(2) t1(1) h] obtain tr2
    where t2: "P (self s2)" "out s2 = out s1 @ tr2" "set (steps tr2) \<subseteq> F"
    by blast
  show "P (self (snd (catch_called_process_error m h s))) \<and>
        (\<exists>tr. out (snd (catch_called_process_error m h s)) = out s @ tr \<and> set (steps tr) \<subseteq> F)"
    using m h t1 t2
    by (simp add: catch_called_process_error_def split: sum.splits exn.splits)
qed

lemma footprint_on_finally:
  assumes "footprint_on P F m" and "footprint_on P F h"
  shows "footprint_on P F (try_finally m h)"
  unfolding footprint_on_def
proof (intro allI impI)
  fix s :: "'a state"
  assume P: "P (self s)"
  obtain r s1 where m: "m s = (r, s1)" by (cases "m s")
  from footprint_onD [OF assms(1) P m] obtain tr1
    where t1: "P (self s1)" "out s1 = out s @ tr1" "set (steps tr1) \<subseteq> F"
    by blast
  obtain r2 s2 where h: "h s1 = (r2, s2)" by (cases "h s1")
  from footprint_onD [OF assms(2) t1(1) h] obtain tr2
    where t2: "P (self s2)" "out s2 = out s1 @ tr2" "set (steps tr2) \<subseteq> F"
    by blast
  show "P (self (snd (try_finally m h s))) \<and>
        (\<exists>tr. out (snd (try_finally m h s)) = out s @ tr \<and> set (steps tr) \<subseteq> F)"
    using m h t1 t2
    by (simp add: try_finally_def split: sum.splits)
qed

lemma footprint_on_run_check:
  "classify c \<in> F \<Longrightarrow> footprint_on P F (subprocess_run_check env c)"
  unfolding subprocess_run_check_def
  by (intro footprint_on_bind footprint_on_run)
     (simp_all add: footprint_on_raise footprint_on_ret)

lemma footprint_on_if:
  "(b \<Longrightarrow> footprint_on P F m) \<Longrightarrow> (\<not> b \<Longrightarrow> footprint_on P F n) \<Longrightarrow>
   footprint_on P F (if b then m else n)"
  by simp

lemma footprint_on_option:
  "(x = None \<Longrightarrow> footprint_on P F m) \<Longrightarrow> (\<And>y. x = Some y \<Longrightarrow> footprint_on P F (n y)) \<Longrightarrow>
   footprint_on P F (case x of None \<Rightarrow> m | Some y \<Rightarrow> n y)"
  by (cases x) simp_all

lemma footprint_on_sum:
  "(\<And>y. x = Inl y \<Longrightarrow> footprint_on P F (m y)) \<Longrightarrow>
   (\<And>y. x = Inr y \<Longrightarrow> footprint_on P F (n y)) \<Longrightarrow>
   footprint_on P F (case x of Inl y \<Rightarrow> m y | Inr y \<Rightarrow> n y)"
  by (cases x) simp_all

lemmas footprint_rules =
  footprint_on_ret footprint_on_raise footprint_on_gets footprint_on_print
  footprint_on_echo footprint_on_bind footprint_on_andthen footprint_on_reading
  footprint_on_catch footprint_on_finally footprint_on_run footprint_on_run_check
  footprint_on_if footprint_on_option footprint_on_sum footprint_on_copy2 footprint_on_unlink
  footprint_on_write_file footprint_on_chdir footprint_on_modify_self

lemma footprint_is_git_repo: "footprint_on P {RepoCheck} (is_git_repo env)"
  unfolding is_git_repo_def by (intro footprint_rules) (simp add: classify_def)

lemma footprint_prepare_claude_config: "footprint_on P {} prepare_claude_config"
  unfolding prepare_claude_config_def Let_def by (intro footprint_rules)

lemma footprint_should_build_image: "footprint_on P {ImageQuery} (should_build_image env nc)"
  unfolding should_build_image_def by (intro footprint_rules) (simp_all add: classify_def)

lemma footprint_build_image: "footprint_on P {ImageBuild} (build_image env nc)"
  unfolding build_image_def
  by (intro footprint_rules) (simp_all add: classify_def build_args_def)

lemma footprint_unlink_existing: "footprint_on P {} (unlink_existing ps)"
  by (induction ps) (auto intro!: footprint_rules)

lemma footprint_cleanup_temp_files: "footprint_on P {} cleanup_temp_files"
  unfolding cleanup_temp_files_def by (intro footprint_rules footprint_unlink_existing)

lemma footprint_stop_existing_container:
  "footprint_on P {ContainerExists, ContainerStop, ContainerRemove} (stop_existing_container env)"
  unfolding stop_existing_container_def
  by (intro footprint_rules) (simp_all add: classify_def)

lemma footprint_run_container: "footprint_on P {ContainerRun} (run_container env mp m pm)"
  unfolding run_container_def
  by (intro footprint_rules) (simp_all add: classify_def run_args_def)

lemma footprint_commit_and_push:
  "footprint_on P {Stage, Commit, BranchQuery, Push} (commit_and_push env)"
  unfolding commit_and_push_def push_with_fallback_def Let_def
  by (intro footprint_rules) (simp_all add: classify_def)

lemma footprint_handle_worktree_post_processing:
  "footprint_on P {ChangeQuery, Stage, Commit, BranchQuery, Push}
     (handle_worktree_post_processing env)"
  unfolding handle_worktree_post_processing_def Let_def
  by (intro footprint_rules footprint_on_mono [OF footprint_commit_and_push])
     (simp_all add: classify_def)

lemma footprint_cleanup_worktree_if_needed:
  "footprint_on P {WorktreeList, WorktreeRemove} (cleanup_worktree_if_needed env)"
  unfolding cleanup_worktree_if_needed_def
  by (intro footprint_rules) (simp_all add: classify_def)

lemma appends_footprint: "footprint_on (\<lambda>_. True) F f \<Longrightarrow> appends f"
  unfolding appends_def by (rule footprint_on_mono) simp_all

lemma appends_out: "appends f \<Longrightarrow> out (snd (f s)) = out s @ trace_of f s"
  unfolding appends_def footprint_on_def trace_of_def since_def
  by (metis append_eq_conv_conj)

lemma footprint_trace:
  "footprint_on (\<lambda>_. True) F f \<Longrightarrow> set (steps (trace_of f s)) \<subseteq> F"
  unfolding footprint_on_def trace_of_def since_def
  by (metis append_eq_conv_conj)

lemma trace_of_bind:
  assumes "appends m" and "\<And>x. appends (f x)"
  shows "trace_of (bind m f) s =
           trace_of m s @
           (case fst (m s) of Inl e \<Rightarrow> [] | Inr x \<Rightarrow> trace_of (f x) (snd (m s)))"
proof (cases "fst (m s)")
  case (Inl e)
  then show ?thesis by (simp add: trace_of_def bind_def case_prod_unfold)
next
  case (Inr x)
  have "out (snd (bind m f s)) = out (snd (f x (snd (m s))))"
    using Inr by (simp add: bind_def case_prod_unfold)
  also have "\<dots> = out (snd (m s)) @ trace_of (f x) (snd (m s))"
    by (rule appends_out [OF assms(2)])
  also have "\<dots> = out s @ trace_of m s @ trace_of (f x) (snd (m s))"
    by (simp add: appends_out [OF assms(1)])
  finally show ?thesis using Inr by (simp add: trace_of_def [of "bind m f"] since_def)
qed

lemma trace_of_andthen:
  assumes "appends m" and "appends n"
  shows "trace_of (andthen m n) s =
           trace_of m s @
           (case fst (m s) of Inl e \<Rightarrow> [] | Inr x \<Rightarrow> trace_of n (snd (m s)))"
  unfolding andthen_def by (rule trace_of_bind) (simp_all add: assms)

lemma trace_of_finally:
  assumes "appends m" and "appends h"
  shows "trace_of (try_finally m h) s = trace_of m s @ trace_of h (snd (m s))"
proof -
  have "out (snd (try_finally m h s)) = out (snd (h (snd (m s))))"
    by (simp add: try_finally_def case_prod_unfold split: sum.splits)
  also have "\<dots> = out (snd (m s)) @ trace_of h (snd (m s))"
    by (rule appends_out [OF assms(2)])
  also have "\<dots> = out s @ trace_of m s @ trace_of h (snd (m s))"
    by (simp add: appends_out [OF assms(1)])
  finally show ?thesis by (simp add: trace_of_def [of "try_finally m h"] since_def)
qed

lemma trace_of_reading: "trace_of (reading g) s = trace_of (g s) s"
  by (simp add: trace_of_def reading_def)

lemma trace_of_print [simp]: "trace_of (print_colored m c) s = [Print c m]"
  by (simp add: trace_of_def print_colored_def since_def)

lemma trace_of_ret [simp]: "trace_of (ret x) s = []"
  by (simp add: trace_of_def ret_def since_def)

lemma trace_of_raise [simp]: "trace_of (raise x) s = []"
  by (simp add: trace_of_def raise_def since_def)

lemma trace_of_modify_self [simp]: "trace_of (modify_self x) s = []"
  by (simp add: trace_of_def modify_self_def since_def)

lemma only_append [simp]: "only K (a @ b) = only K a @ only K b"
  by (simp add: only_def)

lemma only_simps [simp]:
  "only K [] = []"
  "only K (Print k m # tr) = only K tr"
  "only K (Echo m # tr) = only K tr"
  "only K (Exec c r # tr) = (if classify c \<in> K then Exec c r # only K tr else only K tr)"
  by (simp_all add: only_def)

lemma only_empty_iff: "only K tr = [] \<longleftrightarrow> set (steps tr) \<inter> K = {}"
  by (induction tr rule: execs.induct) (auto simp: only_def steps_def)

lemma only_none: "set (steps tr) \<subseteq> F \<Longrightarrow> F \<inter> K = {} \<Longrightarrow> only K tr = []"
  unfolding only_empty_iff by blast

lemma only_footprint:
  "footprint_on (\<lambda>_. True) F f \<Longrightarrow> F \<inter> K = {} \<Longrightarrow> only K (trace_of f s) = []"
  by (rule only_none [OF footprint_trace])

lemma since_out [simp]: "out s' = out s @ tr \<Longrightarrow> since s s' = tr"
  by (simp add: since_def)

lemma stop_existing_container_absent:
  assumes "env (ext s) (pcwd s) (files s)
             [''podman'', ''container'', ''exists'', container_name (self s)] = (r, e1, f1)"
    and "returncode r \<noteq> 0"
  shows "stop_existing_container env s =
           (Inr (), s\<lparr>ext := e1, files := f1,
                     out := out s @ [Exec [''podman'', ''container'', ''exists'',
                                           container_name (self s)] r]\<rparr>)"
  using assms by (simp add: stop_existing_container_def prog_defs)

lemma stop_existing_container_present:
  assumes "env (ext s) (pcwd s) (files s)
             [''podman'', ''container'', ''exists'', container_name (self s)] = (r, e1, f1)"
    and "returncode r = 0"
  shows "\<exists>r1 r2 s'. stop_existing_container env s = (Inr (), s') \<and>
           out s' = out s @
             [Exec [''podman'', ''container'', ''exists'', container_name (self s)] r,
              Print YELLOW ''Stopping existing container...'',
              Exec [''podman'', ''stop'', container_name (self s)] r1,
              Exec [''podman'', ''rm'', container_name (self s)] r2]"
  using assms by (simp add: stop_existing_container_def prog_defs case_prod_unfold)

lemma appends_ret [simp]: "appends (ret x)"
  and appends_raise [simp]: "appends (raise e)"
  and appends_print [simp]: "appends (print_colored m c)"
  and appends_modify_self [simp]: "appends (modify_self g)"
  and appends_gets [simp]: "appends (gets h)"
  unfolding appends_def by (intro footprint_rules; simp)+

lemma appends_bind [simp]: "appends m \<Longrightarrow> (\<And>x. appends (f x)) \<Longrightarrow> appends (bind m f)"
  unfolding appends_def by (rule footprint_on_bind)

lemma appends_andthen [simp]: "appends m \<Longrightarrow> appends n \<Longrightarrow> appends (andthen m n)"
  unfolding appends_def by (rule footprint_on_andthen)

lemma appends_finally [simp]: "appends m \<Longrightarrow> appends n \<Longrightarrow> appends (try_finally m n)"
  unfolding appends_def by (rule footprint_on_finally)

lemma appends_reading [simp]: "(\<And>s. appends (g s)) \<Longrightarrow> appends (reading g)"
  unfolding appends_def by (rule footprint_on_reading)

lemma footprint_create_worktree:
  assumes "\<And>l. P l \<Longrightarrow> P (l\<lparr>worktree_created := True\<rparr>)"
  shows "footprint_on P {RepoCheck, WorktreeAdd} (create_worktree env b)"
  unfolding create_worktree_def Let_def
  by (intro footprint_rules footprint_on_mono [OF footprint_is_git_repo])
     (simp_all add: classify_def assms)

lemma footprint_setup_working_directory:
  assumes "\<And>l. P l \<Longrightarrow> P (l\<lparr>worktree_created := True\<rparr>)"
    and "\<And>l p. P l \<Longrightarrow> P (l\<lparr>worktree_path := Some p\<rparr>)"
    and "\<And>l p. P l \<Longrightarrow> P (l\<lparr>worktree_path := Some p, cleanup_worktree := False\<rparr>)"
  shows "footprint_on P {RepoCheck, WorktreeAdd} (setup_working_directory env a)"
  unfolding setup_working_directory_def Let_def
  by (intro footprint_rules footprint_create_worktree)
     (simp_all add: assms)

lemma appends_methods [simp]:
  "appends prepare_claude_config"
  "appends (should_build_image env nc)"
  "appends (build_image env nc)"
  "appends cleanup_temp_files"
  "appends (stop_existing_container env)"
  "appends (run_container env mp m pm)"
  "appends (handle_worktree_post_processing env)"
  "appends (cleanup_worktree_if_needed env)"
  "appends (create_worktree env b)"
  "appends (setup_working_directory env a)"
  by (rule appends_footprint, rule footprint_prepare_claude_config footprint_should_build_image
      footprint_build_image footprint_cleanup_temp_files footprint_stop_existing_container
      footprint_run_container footprint_handle_worktree_post_processing
      footprint_cleanup_worktree_if_needed footprint_create_worktree
      footprint_setup_working_directory; simp)+


lemma only_methods [simp]:
  "only K (trace_of prepare_claude_config s) = []"
  "only K (trace_of cleanup_temp_files s) = []"
  "ImageQuery \<notin> K \<Longrightarrow> only K (trace_of (should_build_image env nc) s) = []"
  "ImageBuild \<notin> K \<Longrightarrow> only K (trace_of (build_image env nc) s) = []"
  "K \<inter> {ContainerExists, ContainerStop, ContainerRemove} = {} \<Longrightarrow>
     only K (trace_of (stop_existing_container env) s) = []"
  "ContainerRun \<notin> K \<Longrightarrow> only K (trace_of (run_container env mp m pm) s) = []"
  "K \<inter> {ChangeQuery, Stage, Commit, BranchQuery, Push} = {} \<Longrightarrow>
     only K (trace_of (handle_worktree_post_processing env) s) = []"
  "K \<inter> {WorktreeList, WorktreeRemove} = {} \<Longrightarrow>
     only K (trace_of (cleanup_worktree_if_needed env) s) = []"
  "K \<inter> {RepoCheck, WorktreeAdd} = {} \<Longrightarrow>
     only K (trace_of (setup_working_directory env a) s) = []"
  by (rule only_footprint, rule footprint_prepare_claude_config footprint_cleanup_temp_files
        footprint_should_build_image footprint_build_image footprint_stop_existing_container
        footprint_run_container footprint_handle_worktree_post_processing
        footprint_cleanup_worktree_if_needed footprint_setup_working_directory;
      (simp; fail)?; blast)+


lemma trace_of_if:
  "trace_of (if b then m else n) s = (if b then trace_of m s else trace_of n s)"
  by simp

lemma fresh_eval:
  "fresh tape =
     \<lparr>self =
        \<lparr>script_dir = ''/opt/adi'', temp_dir = ''/tmp/tmpa1'',
         dockerfile = ''/tmp/tmpa1/claude-code-ubuntu.dockerfile'',
         template_file = ''/tmp/tmpa1/claude.template.json'',
         image_name = ''claude-code-ubuntu'', container_name = ''claude-code-dev'',
         user_uid = 1000, user_gid = 1000, user_name = ''dev'', cwd = ''/home/dev/project'',
         worktree_path = None, worktree_created = False, cleanup_worktree = True\<rparr>,
      ext = tape,
      files = [''/home/dev'' \<mapsto> Entry Directory 1,
               ''/home/dev/project'' \<mapsto> Entry Directory 1,
               ''/home/dev/.claude/.credentials.json'' \<mapsto> Entry JsonObject 2,
               ''/home/dev/.claude.json'' \<mapsto> Entry JsonObject 3,
               ''/opt/adi'' \<mapsto> Entry Directory 1,
               ''/tmp/tmpa1'' \<mapsto> Entry Directory 50,
               ''/tmp/tmpa1/claude-code-ubuntu.dockerfile'' \<mapsto> Entry Text 50,
               ''/tmp/tmpa1/claude.template.json'' \<mapsto> Entry JsonObject 50],
      pcwd = ''/home/dev/project'', home = ''/home/dev'', script_parent = ''/opt/adi'',
      mkdtemp_path = ''/tmp/tmpa1'', os_uid = 1000, os_gid = 1000, env_USER = Some ''dev'',
      clock = 50, timestr = ''2025-01-01 12:00:00'', out = []\<rparr>"
  by (simp add: fresh_def init_def host_def path_join_def Let_def)

lemma with_worktree_eval:
  "self (with_worktree tape) =
     \<lparr>script_dir = ''/opt/adi'', temp_dir = ''/tmp/tmpa1'',
      dockerfile = ''/tmp/tmpa1/claude-code-ubuntu.dockerfile'',
      template_file = ''/tmp/tmpa1/claude.template.json'',
      image_name = ''claude-code-ubuntu'', container_name = ''claude-code-dev'',
      user_uid = 1000, user_gid = 1000, user_name = ''dev'', cwd = ''/home/dev/project'',
      worktree_path = Some ''/home/dev/project/claude_wt'', worktree_created = True,
      cleanup_worktree = True\<rparr>"
  "ext (with_worktree tape) = tape"
  "pcwd (with_worktree tape) = ''/home/dev/project''"
  "out (with_worktree tape) = []"
  "files (with_worktree tape) ''/home/dev/project/claude_wt'' = Some (Entry Directory 50)"
  by (simp_all add: with_worktree_def fresh_eval)

subsection \<open>The shape of a run\<close>

lemma run_unfold:
  "run env a s =
     (if \<not> path_exists (dockerfile (self s)) s then
        (Inl (SystemExit 1),
         s\<lparr>out := out s @
            [Print BLUE ''Claude Code Container Launcher'',
             Print YELLOW
               (''Warning: '' @ dockerfile (self s) @ '' not found in script directory'')]\<rparr>)
      else
        bind (setup_working_directory env a)
          (\<lambda>mount_path.
             try_finally (session env a mount_path) (cleanup_worktree_if_needed env))
          (entered a s))"
  by (simp add: run_def andthen_def bind_def reading_def print_colored_def raise_def
        modify_self_def ret_def entered_def path_exists_def)

lemma footprint_session:
  "footprint_on P
     {ImageQuery, ImageBuild, ContainerExists, ContainerStop, ContainerRemove, ContainerRun,
      ChangeQuery, Stage, Commit, BranchQuery, Push}
     (session env a mp)"
  unfolding session_def
  by (intro footprint_rules
        footprint_on_mono [OF footprint_prepare_claude_config]
        footprint_on_mono [OF footprint_should_build_image]
        footprint_on_mono [OF footprint_build_image]
        footprint_on_mono [OF footprint_cleanup_temp_files]
        footprint_on_mono [OF footprint_stop_existing_container]
        footprint_on_mono [OF footprint_run_container]
        footprint_on_mono [OF footprint_handle_worktree_post_processing]) simp_all

lemma self_session [simp]: "self (snd (session env a mp s)) = self s"
  using footprint_session [of "\<lambda>l. l = self s" env a mp]
  unfolding footprint_on_def by simp

lemma self_cleanup_worktree_if_needed [simp]:
  "self (snd (cleanup_worktree_if_needed env s)) = self s"
  using footprint_cleanup_worktree_if_needed [of "\<lambda>l. l = self s" env]
  unfolding footprint_on_def by simp

lemma appends_session [simp]: "appends (session env a mp)"
  by (rule appends_footprint, rule footprint_session)

lemma stop_existing_container_returns: "fst (stop_existing_container env s) = Inr ()"
  by (simp add: stop_existing_container_def prog_defs case_prod_unfold)

lemma run_container_returns: "fst (run_container env mp m pm s) = Inr ()"
  by (simp add: run_container_def prog_defs case_prod_unfold split: option.splits)

lemma cleanup_worktree_if_needed_returns: "fst (cleanup_worktree_if_needed env s) = Inr ()"
  by (simp add: cleanup_worktree_if_needed_def prog_defs case_prod_unfold split: option.splits)

lemma out_entered [simp]:
  "out (entered a s) = out s @ [Print BLUE ''Claude Code Container Launcher'']"
  by (simp add: entered_def)

lemma trace_of_eq: "f s = (r, s') \<Longrightarrow> appends f \<Longrightarrow> out s' = out s @ trace_of f s"
  using appends_out [of f s] by simp

lemma run_cases [consumes 0, case_names no_recipe no_checkout ran]:
  obtains
    (no_recipe)
      "\<not> path_exists (dockerfile (self s)) s"
      "fst (run env a s) = Inl (SystemExit 1)"
      "execs (trace_of (run env a) s) = []"
      "self (snd (run env a s)) = self s"
  | (no_checkout) e s2 where
      "setup_working_directory env a (entered a s) = (Inl e, s2)"
      "run env a s = (Inl e, s2)"
      "trace_of (run env a) s =
         Print BLUE ''Claude Code Container Launcher''
           # trace_of (setup_working_directory env a) (entered a s)"
  | (ran) mp s2 r3 s3 s4 where
      "setup_working_directory env a (entered a s) = (Inr mp, s2)"
      "session env a mp s2 = (r3, s3)"
      "cleanup_worktree_if_needed env s3 = (Inr (), s4)"
      "run env a s = (r3, s4)"
      "trace_of (run env a) s =
         Print BLUE ''Claude Code Container Launcher''
           # trace_of (setup_working_directory env a) (entered a s)
           @ trace_of (session env a mp) s2
           @ trace_of (cleanup_worktree_if_needed env) s3"
      "self s3 = self s2" "self s4 = self s2"
proof (cases "path_exists (dockerfile (self s)) s")
  case False
  then show ?thesis
    by (intro no_recipe) (simp_all add: run_unfold trace_of_def since_def)
next
  case True
  obtain r2 s2 where stp: "setup_working_directory env a (entered a s) = (r2, s2)"
    by (cases "setup_working_directory env a (entered a s)")
  have o2: "out s2 = out s @ Print BLUE ''Claude Code Container Launcher''
              # trace_of (setup_working_directory env a) (entered a s)"
    using trace_of_eq [of "setup_working_directory env a" "entered a s" r2 s2] stp by simp
  show ?thesis
  proof (cases r2)
    case (Inl e)
    have "run env a s = (Inl e, s2)"
      using True stp Inl by (simp add: run_unfold bind_def)
    moreover from this have "trace_of (run env a) s =
         Print BLUE ''Claude Code Container Launcher''
           # trace_of (setup_working_directory env a) (entered a s)"
      using o2 by (simp add: trace_of_def [of "run env a"] since_def)
    ultimately show ?thesis using stp Inl by (intro no_checkout) simp_all
  next
    case (Inr mp)
    obtain r3 s3 where sess: "session env a mp s2 = (r3, s3)"
      by (cases "session env a mp s2")
    obtain r4 s4 where clean: "cleanup_worktree_if_needed env s3 = (r4, s4)"
      by (cases "cleanup_worktree_if_needed env s3")
    have r4: "r4 = Inr ()"
      using cleanup_worktree_if_needed_returns [of env s3] clean by simp
    have run: "run env a s = (r3, s4)"
      using True stp Inr sess clean r4 by (simp add: run_unfold bind_def try_finally_def)
    have o3: "out s3 = out s2 @ trace_of (session env a mp) s2"
      using trace_of_eq [of "session env a mp" s2 r3 s3] sess by simp
    have o4: "out s4 = out s3 @ trace_of (cleanup_worktree_if_needed env) s3"
      using trace_of_eq [of "cleanup_worktree_if_needed env" s3 r4 s4] clean by simp
    have tr: "trace_of (run env a) s =
         Print BLUE ''Claude Code Container Launcher''
           # trace_of (setup_working_directory env a) (entered a s)
           @ trace_of (session env a mp) s2
           @ trace_of (cleanup_worktree_if_needed env) s3"
      using run o2 o3 o4 by (simp add: trace_of_def [of "run env a"] since_def)
    have s3: "self s3 = self s2"
      using self_session [of env a mp s2] sess by simp
    have s4: "self s4 = self s2"
      using self_cleanup_worktree_if_needed [of env s3] clean s3 by simp
    show ?thesis
      using stp Inr sess clean r4 run tr s3 s4 by (intro ran [of mp s2 r3 s3 s4]) simp_all
  qed
qed

lemma only_session [simp]:
  "K \<inter> {ImageQuery, ImageBuild, ContainerExists, ContainerStop, ContainerRemove,
        ContainerRun, ChangeQuery, Stage, Commit, BranchQuery, Push} = {} \<Longrightarrow>
   only K (trace_of (session env a mp) s) = []"
  by (rule only_footprint [OF footprint_session]) blast

lemma cleanup_removes_only_if:
  "only {WorktreeRemove} (trace_of (cleanup_worktree_if_needed env) s) \<noteq> [] \<Longrightarrow>
   worktree_created (self s) \<and> cleanup_worktree (self s)"
  by (cases "worktree_created (self s) \<and> cleanup_worktree (self s)")
     (auto simp: cleanup_worktree_if_needed_def reading_def trace_of_def since_def ret_def
        split: option.splits)

lemma setup_keeps_no_cleanup:
  assumes "\<not> cleanup_worktree (self s)"
  shows "\<not> cleanup_worktree (self (snd (setup_working_directory env a s)))"
  using footprint_setup_working_directory [of "\<lambda>l. \<not> cleanup_worktree l" env a] assms
  unfolding footprint_on_def by simp

lemma setup_created:
  assumes "worktree_created (self (snd (setup_working_directory env a s)))"
    and "\<not> worktree_created (self s)"
  shows "\<not> arg_no_worktree a \<and> (\<forall>p. arg_worktree_path a = Some p \<longrightarrow> \<not> path_exists p s)"
proof (cases "arg_no_worktree a")
  case True
  with assms show ?thesis
    by (simp add: setup_working_directory_def reading_def andthen_def bind_def
          print_colored_def ret_def Let_def)
next
  case False
  show ?thesis
  proof (cases "arg_worktree_path a")
    case None
    with False show ?thesis by simp
  next
    case (Some p)
    show ?thesis
    proof (cases "path_exists p s")
      case True
      with assms False Some show ?thesis
        by (simp add: setup_working_directory_def reading_def andthen_def bind_def
              print_colored_def modify_self_def ret_def Let_def)
    next
      case no: False
      with False Some show ?thesis by simp
    qed
  qed
qed

lemma entered_simps [simp]:
  "cleanup_worktree (self (entered a s)) = (cleanup_worktree (self s) \<and> \<not> arg_keep_worktree a)"
  "worktree_created (self (entered a s)) = worktree_created (self s)"
  "path_exists p (entered a s) = path_exists p s"
  by (simp_all add: entered_def path_exists_def)

lemma footprint_trace_on:
  "footprint_on P F f \<Longrightarrow> P (self s) \<Longrightarrow> set (steps (trace_of f s)) \<subseteq> F"
  unfolding footprint_on_def trace_of_def since_def
  by (metis append_eq_conv_conj)

lemma footprint_post_not_created:
  "footprint_on (\<lambda>l. \<not> worktree_created l) {} (handle_worktree_post_processing env)"
  unfolding handle_worktree_post_processing_def
  by (rule footprint_on_reading) (simp add: footprint_on_ret split: option.splits)

lemma footprint_session_not_created:
  "footprint_on (\<lambda>l. \<not> worktree_created l)
     {ImageQuery, ImageBuild, ContainerExists, ContainerStop, ContainerRemove, ContainerRun}
     (session env a mp)"
  unfolding session_def
  by (intro footprint_rules
        footprint_on_mono [OF footprint_prepare_claude_config]
        footprint_on_mono [OF footprint_should_build_image]
        footprint_on_mono [OF footprint_build_image]
        footprint_on_mono [OF footprint_cleanup_temp_files]
        footprint_on_mono [OF footprint_stop_existing_container]
        footprint_on_mono [OF footprint_run_container]
        footprint_on_mono [OF footprint_post_not_created]) simp_all

lemma session_not_created:
  assumes "\<not> worktree_created (self s)"
  shows "only reconcile_steps (trace_of (session env a mp) s) = []"
  by (rule only_none [OF footprint_trace_on [OF footprint_session_not_created]])
     (simp_all add: assms reconcile_steps_def)

lemma post_processing_not_created:
  "\<not> worktree_created (self s) \<Longrightarrow> handle_worktree_post_processing env s = (Inr (), s)"
  by (simp add: handle_worktree_post_processing_def reading_def ret_def split: option.splits)

subsection \<open>Pushes\<close>

lemma trace_of_run_check [simp]:
  "trace_of (subprocess_run_check env c) s = [Exec c (answer env c s)]"
  by (simp add: trace_of_def since_def subprocess_run_check_def subprocess_run_def bind_def
        raise_def ret_def case_prod_unfold answer_def)

lemma fst_run_check:
  "fst (subprocess_run_check env c s) =
     (if returncode (answer env c s) \<noteq> 0
      then Inl (CalledProcessError (returncode (answer env c s)) c)
      else Inr (answer env c s))"
  by (simp add: subprocess_run_check_def subprocess_run_def bind_def
        raise_def ret_def case_prod_unfold answer_def)

lemma appends_run_check [simp]: "appends (subprocess_run_check env c)"
  unfolding appends_def by (rule footprint_on_run_check) simp

lemma appends_catch [simp]:
  "appends m \<Longrightarrow> appends h \<Longrightarrow> appends (catch_called_process_error m h)"
  unfolding appends_def by (rule footprint_on_catch)

lemma trace_of_catch:
  assumes "appends m" and "appends h"
  shows "trace_of (catch_called_process_error m h) s =
           trace_of m s @
           (case fst (m s) of
              Inl (CalledProcessError rc c) \<Rightarrow> trace_of h (snd (m s))
            | _ \<Rightarrow> [])"
proof -
  have m: "out (snd (m s)) = out s @ trace_of m s" by (rule appends_out [OF assms(1)])
  have h: "out (snd (h (snd (m s)))) = out (snd (m s)) @ trace_of h (snd (m s))"
    by (rule appends_out [OF assms(2)])
  have "out (snd (catch_called_process_error m h s)) =
          out s @ trace_of m s @
           (case fst (m s) of
              Inl (CalledProcessError rc c) \<Rightarrow> trace_of h (snd (m s))
            | _ \<Rightarrow> [])"
    using m h
    by (simp add: catch_called_process_error_def case_prod_unfold split: sum.splits exn.splits)
  then show ?thesis
    unfolding trace_of_def [of "catch_called_process_error m h"] since_def by simp
qed

lemma snd_andthen:
  "snd (andthen m n s) = (case fst (m s) of Inl e \<Rightarrow> snd (m s) | Inr x \<Rightarrow> snd (n (snd (m s))))"
  by (simp add: andthen_def bind_def case_prod_unfold split: sum.splits)

lemma fst_andthen:
  "fst (andthen m n s) = (case fst (m s) of Inl e \<Rightarrow> Inl e | Inr x \<Rightarrow> fst (n (snd (m s))))"
  by (simp add: andthen_def bind_def case_prod_unfold split: sum.splits)

lemma fst_bind:
  "fst (bind m f s) = (case fst (m s) of Inl e \<Rightarrow> Inl e | Inr x \<Rightarrow> fst (f x (snd (m s))))"
  by (simp add: bind_def case_prod_unfold split: sum.splits)

lemma fst_catch:
  "fst (catch_called_process_error m h s) =
     (case fst (m s) of
        Inl (CalledProcessError rc c) \<Rightarrow> fst (h (snd (m s)))
      | r \<Rightarrow> r)"
  by (simp add: catch_called_process_error_def case_prod_unfold split: sum.splits exn.splits)

lemma fst_print [simp]: "fst (print_colored m c s) = Inr ()"
  by (simp add: print_colored_def)

lemma push_with_fallback_returns: "fst (push_with_fallback env b s) = Inr ()"
  by (simp add: push_with_fallback_def fst_catch fst_andthen fst_run_check
        split: sum.splits exn.splits)

lemma push_with_fallback_trace:
  "trace_of (push_with_fallback env b) s =
     (let q = answer env [''git'', ''push'', ''origin'', b] s;
          s1 = snd (subprocess_run_check env [''git'', ''push'', ''origin'', b] s);
          q' = answer env [''git'', ''push'', ''--set-upstream'', ''origin'', b] s1
      in if returncode q = 0
         then [Exec [''git'', ''push'', ''origin'', b] q,
               Print GREEN (''Changes pushed to origin/'' @ b)]
         else [Exec [''git'', ''push'', ''origin'', b] q,
               Exec [''git'', ''push'', ''--set-upstream'', ''origin'', b] q',
               if returncode q' = 0
               then Print GREEN (''New branch created and pushed to origin/'' @ b)
               else Print YELLOW ''Warning: Failed to push changes to remote''])"
  by (simp add: push_with_fallback_def trace_of_catch trace_of_andthen fst_andthen
        snd_andthen fst_run_check Let_def)

lemma push_outcome_none: "only {Push} tr = [] \<Longrightarrow> push_outcome tr r"
  by (simp add: push_outcome_def)

lemma push_outcome_extend:
  "push_outcome tr r \<Longrightarrow> only {Push} pre = [] \<Longrightarrow> only {Push} post = [] \<Longrightarrow>
   push_outcome (pre @ tr @ post) r"
  unfolding push_outcome_def by auto

lemma quiet_only: "quiet f \<Longrightarrow> only {Push} (trace_of f s) = []"
  unfolding quiet_def by (rule only_footprint) auto

lemma quiet_appends: "quiet f \<Longrightarrow> appends f"
  unfolding quiet_def by (rule appends_footprint)

lemma softly_quiet: "quiet f \<Longrightarrow> softly f"
  unfolding softly_def by (simp add: push_outcome_none quiet_only)

lemma softly_bind:
  assumes "quiet m" and "\<And>x. appends (f x)" and "\<And>x. softly (f x)"
  shows "softly (bind m f)"
  unfolding softly_def
proof
  fix s
  show "push_outcome (trace_of (bind m f) s) (fst (bind m f s))"
  proof (cases "fst (m s)")
    case (Inl e)
    then show ?thesis
      using quiet_only [OF assms(1), of s]
      by (simp add: trace_of_bind quiet_appends assms push_outcome_none)
  next
    case (Inr x)
    have "push_outcome (trace_of m s @ trace_of (f x) (snd (m s)) @ [])
            (fst (f x (snd (m s))))"
      using assms(3) [of x] quiet_only [OF assms(1), of s]
      by (intro push_outcome_extend) (simp_all add: softly_def)
    then show ?thesis
      using Inr by (simp add: trace_of_bind quiet_appends assms fst_bind)
  qed
qed

lemma softly_andthen:
  "quiet m \<Longrightarrow> appends n \<Longrightarrow> softly n \<Longrightarrow> softly (andthen m n)"
  unfolding andthen_def by (rule softly_bind)

lemma softly_reading: "(\<And>s. softly (g s)) \<Longrightarrow> softly (reading g)"
  unfolding softly_def
proof
  fix s
  assume a: "\<And>s. \<forall>sa. push_outcome (trace_of (g s) sa) (fst (g s sa))"
  have "fst (reading g s) = fst (g s s)" by (simp add: reading_def)
  then show "push_outcome (trace_of (reading g) s) (fst (reading g s))"
    using a [of s] by (simp add: trace_of_reading)
qed

lemma softly_finally:
  assumes "appends m" and "softly m" and "quiet h" and "\<And>s. fst (h s) = Inr ()"
  shows "softly (try_finally m h)"
  unfolding softly_def
proof
  fix s
  have r: "fst (try_finally m h s) = fst (m s)"
    using assms(4) [of "snd (m s)"]
    by (simp add: try_finally_def case_prod_unfold split: sum.splits)
  have "push_outcome ([] @ trace_of m s @ trace_of h (snd (m s))) (fst (m s))"
    using assms(2) quiet_only [OF assms(3)]
    by (intro push_outcome_extend) (simp_all add: softly_def)
  then show "push_outcome (trace_of (try_finally m h) s) (fst (try_finally m h s))"
    by (simp add: r trace_of_finally assms(1) quiet_appends [OF assms(3)])
qed

lemma softly_push_with_fallback: "softly (push_with_fallback env b)"
  unfolding softly_def push_outcome_def
  by (simp add: push_with_fallback_trace push_with_fallback_returns Let_def classify_def)

lemma quiet_rules:
  "quiet (print_colored m c)"
  "quiet (ret x)"
  "quiet (gets g)"
  "quiet (chdir p)"
  "classify cmd \<noteq> Push \<Longrightarrow> quiet (subprocess_run_check env cmd)"
  "classify cmd \<noteq> Push \<Longrightarrow> quiet (subprocess_run env cmd)"
  unfolding quiet_def by (intro footprint_rules; simp)+

lemma quiet_methods:
  "quiet prepare_claude_config"
  "quiet (should_build_image env nc)"
  "quiet (build_image env nc)"
  "quiet cleanup_temp_files"
  "quiet (stop_existing_container env)"
  "quiet (run_container env mp m pm)"
  unfolding quiet_def
  by (rule footprint_on_mono,
      rule footprint_prepare_claude_config footprint_should_build_image footprint_build_image
        footprint_cleanup_temp_files footprint_stop_existing_container footprint_run_container,
      simp)+

lemma appends_push_with_fallback [simp]: "appends (push_with_fallback env b)"
  unfolding push_with_fallback_def by simp

lemma appends_commit_and_push [simp]: "appends (commit_and_push env)"
  by (rule appends_footprint, rule footprint_commit_and_push)

lemma softly_commit_and_push: "softly (commit_and_push env)"
  unfolding commit_and_push_def Let_def
  by (intro softly_andthen softly_bind softly_push_with_fallback quiet_rules)
     (simp_all add: classify_def)

lemma fst_chdir [simp]: "fst (chdir p s) = Inr ()"
  by (simp add: chdir_def)

lemma appends_chdir [simp]: "appends (chdir p)"
  unfolding appends_def by (rule footprint_on_chdir)

lemma appends_subprocess_run [simp]: "appends (subprocess_run env c)"
  unfolding appends_def by (rule footprint_on_run) simp

lemma softly_basic:
  "softly (print_colored m c)"
  "softly (ret ())"
  by (rule softly_quiet, rule quiet_rules)+

lemma softly_if:
  "(b \<Longrightarrow> softly m) \<Longrightarrow> (\<not> b \<Longrightarrow> softly n) \<Longrightarrow> softly (if b then m else n)"
  by simp

lemma quiet_if:
  "(b \<Longrightarrow> quiet m) \<Longrightarrow> (\<not> b \<Longrightarrow> quiet n) \<Longrightarrow> quiet (if b then m else n)"
  by simp

lemma softly_option:
  "(x = None \<Longrightarrow> softly m) \<Longrightarrow> (\<And>y. x = Some y \<Longrightarrow> softly (n y)) \<Longrightarrow>
   softly (case x of None \<Rightarrow> m | Some y \<Rightarrow> n y)"
  by (cases x) simp_all

lemma softly_handle_worktree_post_processing:
  "softly (handle_worktree_post_processing env)"
  unfolding handle_worktree_post_processing_def Let_def
  by (intro softly_reading softly_option softly_if softly_basic softly_andthen softly_bind
        softly_finally softly_commit_and_push quiet_rules)
     (simp_all add: classify_def)

lemma softly_session: "softly (session env a mp)"
  unfolding session_def
  by (intro softly_andthen softly_bind softly_handle_worktree_post_processing
        quiet_methods quiet_rules quiet_if)
     simp_all

lemma push_outcome_run: "push_outcome (trace_of (run env a) s) (fst (run env a s))"
proof (cases rule: run_cases [of s env a])
  case no_recipe
  then show ?thesis
    by (intro push_outcome_none) (simp add: only_empty_iff steps_def)
next
  case (no_checkout e s2)
  then show ?thesis by (intro push_outcome_none) simp
next
  case (ran mp s2 r3 s3 s4)
  have "push_outcome (trace_of (session env a mp) s2) (fst (session env a mp s2))"
    using softly_session [of env a mp] by (simp add: softly_def)
  then have "push_outcome
      ((Print BLUE ''Claude Code Container Launcher''
          # trace_of (setup_working_directory env a) (entered a s))
       @ trace_of (session env a mp) s2
       @ trace_of (cleanup_worktree_if_needed env) s3) r3"
    using ran(2) by (intro push_outcome_extend) simp_all
  then show ?thesis using ran(4,5) by simp
qed

lemma prepare_claude_config_fresh:
  "prepare_claude_config (fresh tape) =
     (Inr (),
      (fresh tape)\<lparr>files := (files (fresh tape))
          (''/opt/adi/.credentials.json'' \<mapsto> Entry JsonObject 2,
           ''/opt/adi/.claude.json'' \<mapsto> Entry JsonObject 50),
        out := [Print GREEN ''Preparing Claude configuration files...'',
                Print BLUE ''Copied credentials file'',
                Print BLUE ''Created .claude.json with user configuration'']\<rparr>)"
  by (simp add: prepare_claude_config_def prog_defs fresh_eval path_join_def path_exists_def
        json_load_def copy2_def write_file_def Let_def)

section \<open>The container's entry command\<close>

text \<open>
  Claim C10, as amended. When \<^verbatim>\<open>run_container\<close> is given a non-empty one-shot message, it
  returns normally and runs exactly one command: \<^verbatim>\<open>podman run\<close> with the entry command
  \<^verbatim>\<open>bash -c "claude ..."\<close>. The tool is called with \<^verbatim>\<open>--dangerously-skip-permissions\<close>
  when no permission mode is given or the given one is empty, and with
  \<^verbatim>\<open>--permission-mode <mode>\<close> in place of that flag when a non-empty mode is given.
\<close>

theorem run_container_entry_command:
  assumes "m \<noteq> []"
  shows "fst (run_container env mp (Some m) pm s) = Inr () \<and>
     execs (since s (snd (run_container env mp (Some m) pm s))) =
       [run_args (self s) mp @
        [''bash'', ''-c'',
         ''claude''
         @ (case pm of
              None \<Rightarrow> '' --dangerously-skip-permissions''
            | Some mode \<Rightarrow>
                if mode = [] then '' --dangerously-skip-permissions''
                else '' --permission-mode '' @ mode)
         @ '' -p '' @ dq @ m @ dq @ '' --output-format stream-json --verbose'']]"
  using assms
  by (cases pm)
     (simp_all add: run_container_def prog_defs claude_cmd_def since_def case_prod_unfold)

theorem run_container_entry_command_witness:
  "''fix the build'' \<noteq> [] \<and>
   fst (run_container scripted ''/w'' (Some ''fix the build'') (Some ''plan'') (fresh [])) = Inr () \<and>
   execs (since (fresh [])
      (snd (run_container scripted ''/w'' (Some ''fix the build'') (Some ''plan'') (fresh [])))) =
     [run_args (self (fresh [])) ''/w'' @
      [''bash'', ''-c'',
       ''claude --permission-mode plan -p '' @ dq @ ''fix the build'' @ dq
         @ '' --output-format stream-json --verbose'']]"
proof -
  have h: "''fix the build'' \<noteq> []" by simp
  show ?thesis
    using run_container_entry_command [OF h, of scripted "''/w''" "Some ''plan''" "fresh []"]
    by simp
qed

text \<open>
  The claim as stated fails for an instruction that is supplied but empty
  (\<^verbatim>\<open>-m ""\<close>): the container is started without any entry command, so the tool is not
  invoked at all.
\<close>

theorem run_container_empty_message_counterexample:
  "execs (out (snd (run_container scripted ''/home/dev/project'' (Some []) None (fresh [])))) =
   [[''podman'', ''run'', ''-it'', ''--name'', ''claude-code-dev'', ''--hostname'',
     ''claude-dev'', ''--user'', ''1000:1000'', ''--volume'',
     ''/home/dev/project:/home/dev/dev:Z'', ''--userns=keep-id'', ''claude-code-ubuntu'']]"
  by (simp add: run_container_def prog_defs fresh_eval scripted_def run_args_def str_nat.simps)

section \<open>Stopping a stale container\<close>

text \<open>
  Claim C9. \<^verbatim>\<open>stop_existing_container\<close> asks podman whether a container with the
  configured name exists. When the answer is no (a non-zero return code), the step returns
  normally and does nothing else: the state is the one before, with the query recorded and
  whatever the query itself did to the environment. When the answer is yes, the step
  returns normally after running \<^verbatim>\<open>podman stop\<close> and then \<^verbatim>\<open>podman rm\<close> on that
  name; in \<^verbatim>\<open>run\<close> this step comes directly before \<^verbatim>\<open>run_container\<close>.
\<close>

theorem stop_existing_container_idempotent:
  "case env (ext s) (pcwd s) (files s)
          [''podman'', ''container'', ''exists'', container_name (self s)] of
     (r, e1, f1) \<Rightarrow>
       if returncode r \<noteq> 0 then
         stop_existing_container env s =
           (Inr (), s\<lparr>ext := e1, files := f1,
                     out := out s @ [Exec [''podman'', ''container'', ''exists'',
                                           container_name (self s)] r]\<rparr>)
       else
         (\<exists>r1 r2 s'. stop_existing_container env s = (Inr (), s') \<and>
            out s' = out s @
              [Exec [''podman'', ''container'', ''exists'', container_name (self s)] r,
               Print YELLOW ''Stopping existing container...'',
               Exec [''podman'', ''stop'', container_name (self s)] r1,
               Exec [''podman'', ''rm'', container_name (self s)] r2])"
proof -
  obtain r e1 f1 where q: "env (ext s) (pcwd s) (files s)
          [''podman'', ''container'', ''exists'', container_name (self s)] = (r, e1, f1)"
    by (metis prod_cases3)
  show ?thesis
    using stop_existing_container_absent [of env s r e1 f1]
      stop_existing_container_present [of env s r e1 f1] q
    by (simp add: q)
qed

theorem stop_existing_container_idempotent_witness:
  "stop_existing_container scripted (fresh [Completed 1 []]) =
     (Inr (), (fresh [Completed 1 []])\<lparr>ext := [], 
        out := [Exec [''podman'', ''container'', ''exists'', ''claude-code-dev''] (Completed 1 [])]\<rparr>)"
  using stop_existing_container_idempotent [of scripted "fresh [Completed 1 []]"]
  by (simp add: scripted_def fresh_eval)

section \<open>Reconciling an unchanged checkout\<close>

lemma reconcile_empty_changeset_state:
  assumes "worktree_path (self s) = Some wp" and "worktree_created (self s)"
    and "path_exists wp s"
    and "env (ext s) wp (files s) [''git'', ''diff'', ''--quiet''] = (q1, e1, f1)"
    and "returncode q1 = 0"
    and "env e1 wp f1 [''git'', ''diff'', ''--cached'', ''--quiet''] = (q2, e2, f2)"
    and "returncode q2 = 0"
    and "env e2 wp f2 [''git'', ''ls-files'', ''--others'', ''--exclude-standard''] = (q3, e3, f3)"
    and "strip (stdout q3) = []"
  shows "handle_worktree_post_processing env s =
           (Inr (),
            s\<lparr>ext := e3, files := f3,
              out := out s @
                [Print GREEN ''Processing worktree changes...'',
                 Exec [''git'', ''diff'', ''--quiet''] q1,
                 Exec [''git'', ''diff'', ''--cached'', ''--quiet''] q2,
                 Exec [''git'', ''ls-files'', ''--others'', ''--exclude-standard''] q3,
                 Print BLUE ''No changes detected in worktree'']\<rparr>)"
  using assms
  by (simp add: handle_worktree_post_processing_def prog_defs chdir_def Let_def)

text \<open>
  Claim C7. When the reconciler runs on a created checkout and all three probes come back
  empty (\<^verbatim>\<open>git diff --quiet\<close> and \<^verbatim>\<open>git diff --cached --quiet\<close> return 0,
  \<^verbatim>\<open>git ls-files --others --exclude-standard\<close> prints nothing but white space), it
  returns normally, its whole trace is the three probes between two messages, and no
  stage, commit or push command is run: nothing is committed.
\<close>

theorem reconcile_empty_changeset:
  assumes "worktree_path (self s) = Some wp" and "worktree_created (self s)"
    and "path_exists wp s"
    and "env (ext s) wp (files s) [''git'', ''diff'', ''--quiet''] = (q1, e1, f1)"
    and "returncode q1 = 0"
    and "env e1 wp f1 [''git'', ''diff'', ''--cached'', ''--quiet''] = (q2, e2, f2)"
    and "returncode q2 = 0"
    and "env e2 wp f2 [''git'', ''ls-files'', ''--others'', ''--exclude-standard''] = (q3, e3, f3)"
    and "strip (stdout q3) = []"
  shows "fst (handle_worktree_post_processing env s) = Inr () \<and>
         trace_of (handle_worktree_post_processing env) s =
           [Print GREEN ''Processing worktree changes...'',
            Exec [''git'', ''diff'', ''--quiet''] q1,
            Exec [''git'', ''diff'', ''--cached'', ''--quiet''] q2,
            Exec [''git'', ''ls-files'', ''--others'', ''--exclude-standard''] q3,
            Print BLUE ''No changes detected in worktree''] \<and>
         only {Stage, Commit, Push} (trace_of (handle_worktree_post_processing env) s) = []"
proof -
  have e: "handle_worktree_post_processing env s =
           (Inr (),
            s\<lparr>ext := e3, files := f3,
              out := out s @
                [Print GREEN ''Processing worktree changes...'',
                 Exec [''git'', ''diff'', ''--quiet''] q1,
                 Exec [''git'', ''diff'', ''--cached'', ''--quiet''] q2,
                 Exec [''git'', ''ls-files'', ''--others'', ''--exclude-standard''] q3,
                 Print BLUE ''No changes detected in worktree'']\<rparr>)"
    using assms by (rule reconcile_empty_changeset_state)
  have t: "trace_of (handle_worktree_post_processing env) s =
           [Print GREEN ''Processing worktree changes...'',
            Exec [''git'', ''diff'', ''--quiet''] q1,
            Exec [''git'', ''diff'', ''--cached'', ''--quiet''] q2,
            Exec [''git'', ''ls-files'', ''--others'', ''--exclude-standard''] q3,
            Print BLUE ''No changes detected in worktree'']"
    by (simp add: trace_of_def e since_def)
  show ?thesis
    by (simp add: t e) (simp add: classify_def)
qed

theorem reconcile_empty_changeset_witness:
  "fst (handle_worktree_post_processing scripted (with_worktree [])) = Inr () \<and>
   trace_of (handle_worktree_post_processing scripted) (with_worktree []) =
     [Print GREEN ''Processing worktree changes...'',
      Exec [''git'', ''diff'', ''--quiet''] (Completed 0 []),
      Exec [''git'', ''diff'', ''--cached'', ''--quiet''] (Completed 0 []),
      Exec [''git'', ''ls-files'', ''--others'', ''--exclude-standard''] (Completed 0 []),
      Print BLUE ''No changes detected in worktree''] \<and>
   only {Stage, Commit, Push}
     (trace_of (handle_worktree_post_processing scripted) (with_worktree [])) = []"
  by (rule reconcile_empty_changeset
           [where env = scripted and s = "with_worktree []"
              and wp = "''/home/dev/project/claude_wt''" and ?e1.0 = "[]" and ?e2.0 = "[]"
              and ?e3.0 = "[]" and ?f1.0 = "files (with_worktree [])"
              and ?f2.0 = "files (with_worktree [])" and ?f3.0 = "files (with_worktree [])"
              and ?q1.0 = "Completed 0 []" and ?q2.0 = "Completed 0 []"
              and ?q3.0 = "Completed 0 []"])
     (simp_all add: with_worktree_eval scripted_def path_exists_def strip_def)

section \<open>Creating the checkout\<close>

text \<open>
  Claim C2 does not hold of the code. Asked for a worktree seeded from \<^verbatim>\<open>develop\<close>,
  \<^verbatim>\<open>create_worktree\<close> runs \<^verbatim>\<open>git worktree add -b claude_wt wt_temp/\<close>: the requested
  reference is not part of the command, and the working tree is placed at \<^verbatim>\<open>wt_temp/\<close>
  below the current directory, whereas the path returned (with the created flag set) is
  \<^verbatim>\<open>claude_wt\<close> below the current directory.
\<close>

theorem create_worktree_ignores_source_ref:
  "fst (create_worktree scripted ''develop'' (fresh [])) = Inr ''/home/dev/project/claude_wt'' \<and>
   worktree_created (self (snd (create_worktree scripted ''develop'' (fresh [])))) \<and>
   execs (trace_of (create_worktree scripted ''develop'') (fresh [])) =
     [[''git'', ''rev-parse'', ''--git-dir''],
      [''git'', ''worktree'', ''add'', ''-b'', ''claude_wt'', ''wt_temp/'']]"
  by (simp add: create_worktree_def is_git_repo_def prog_defs trace_of_def since_def
        fresh_eval scripted_def path_join_def Let_def)


section \<open>Teardown after a failed build\<close>

text \<open>
  Claim C1 does not hold of the code. In a run without flags in which the image does not
  exist yet and \<^verbatim>\<open>podman build\<close> fails, the process exits with status 1 and the
  \<^verbatim>\<open>finally\<close> block looks for the checkout, but the credentials file and the
  generated \<^verbatim>\<open>.claude.json\<close> are still in the script directory at the end:
  \<^verbatim>\<open>cleanup_temp_files\<close> is called only on the path where the build succeeds.
\<close>

theorem build_failure_leaves_artifacts:
  "(case main scripted no_flags
           (host [Completed 0 [], Completed 0 [], Completed 1 [], Completed 1 []]) of
      (code, s) \<Rightarrow>
        code = 1 \<and>
        files s ''/opt/adi/.credentials.json'' = Some (Entry JsonObject 2) \<and>
        files s ''/opt/adi/.claude.json'' = Some (Entry JsonObject 50) \<and>
        steps (out s) = [RepoCheck, WorktreeAdd, ImageQuery, ImageBuild, WorktreeList])"
  by (simp add: method_defs prog_defs host_def no_flags_def scripted_def path_join_def
        path_exists_def json_load_def copy2_def write_file_def rmtree_def Let_def
        build_args_def str_nat.simps classify_def py_in.simps)

section \<open>The rebuild decision\<close>

text \<open>What the code decides, whatever the environment answers to the two image queries.\<close>

lemma should_build_image_decision:
  assumes "env (ext s) (pcwd s) (files s)
             [''podman'', ''image'', ''exists'', image_name (self s)] = (q1, e1, f1)"
    and "env e1 (pcwd s) f1
             [''podman'', ''image'', ''inspect'', image_name (self s), ''--format'',
              ''{{.Created}}''] = (q2, e2, f2)"
  shows "fst (should_build_image env force s) =
           Inr (force \<or> returncode q1 \<noteq> 0 \<or>
                (returncode q2 = 0 \<and> f2 (dockerfile (self s)) \<noteq> None))"
  using assms by (simp add: should_build_image_def prog_defs path_exists_def)






lemma self_prepare_claude_config [simp]:
  "self (snd (prepare_claude_config s)) = self s"
  using footprint_prepare_claude_config [of "\<lambda>l. l = self s"]
  unfolding footprint_on_def by auto







section \<open>Removing the checkout at teardown\<close>

text \<open>
  Claim C8 fails in the code. \<^verbatim>\<open>create_worktree\<close> has git create the worktree at
  \<^verbatim>\<open>wt_temp/\<close>, but records \<^verbatim>\<open><cwd>/claude_wt\<close> as the path of the worktree it created,
  and \<^verbatim>\<open>cleanup_worktree_if_needed\<close> removes the recorded path. In a repository that
  already has a worktree at \<^verbatim>\<open>claude_wt\<close> (on another branch), a run without flags
  registers \<^verbatim>\<open>wt_temp\<close>, and at teardown force-removes \<^verbatim>\<open>claude_wt\<close>, which it did not
  create, and leaves \<^verbatim>\<open>wt_temp\<close>, which it did create. The run ends normally.
\<close>

theorem teardown_removes_foreign_checkout:
  "ext occupied =
     [(''/home/dev/project'', ''main''), (''/home/dev/project/claude_wt'', ''feature'')] \<and>
   only {WorktreeAdd, WorktreeRemove} (trace_of (run worktree_git no_flags) occupied) =
     [Exec [''git'', ''worktree'', ''add'', ''-b'', ''claude_wt'', ''wt_temp/''] (Completed 0 []),
      Exec [''git'', ''worktree'', ''remove'', ''/home/dev/project/claude_wt'', ''--force'']
        (Completed 0 [])] \<and>
   ext (snd (run worktree_git no_flags occupied)) =
     [(''/home/dev/project'', ''main''), (''/home/dev/project/wt_temp'', ''claude_wt'')] \<and>
   files (snd (run worktree_git no_flags occupied)) ''/home/dev/project/claude_wt'' = None \<and>
   files (snd (run worktree_git no_flags occupied)) ''/home/dev/project/wt_temp'' \<noteq> None \<and>
   fst (run worktree_git no_flags occupied) = Inr ()"
  by (simp add: method_defs prog_defs occupied_def launched_def host_def no_flags_def
        worktree_git_def porcelain_def drop_slash_def
        path_join_def path_exists_def json_load_def copy2_def write_file_def unlink_def
        chdir_def Let_def build_args_def run_args_def str_nat.simps classify_def strip_def
        trace_of_def since_def)

section \<open>When the reconciler runs\<close>

lemma reconciling_run:
  "steps (trace_of (run scripted no_flags) (stale_dir [])) =
     [RepoCheck, WorktreeAdd, ImageQuery, ImageQuery, ImageBuild, ContainerExists,
      ContainerStop, ContainerRemove, ContainerRun, ChangeQuery, ChangeQuery, ChangeQuery,
      WorktreeList]"
  by (simp add: method_defs prog_defs stale_dir_def fresh_eval no_flags_def scripted_def
        path_join_def path_exists_def json_load_def copy2_def write_file_def unlink_def
        chdir_def Let_def build_args_def run_args_def str_nat.simps classify_def strip_def
        trace_of_def since_def)

text \<open>
  Claim C4. \<^verbatim>\<open>handle_worktree_post_processing\<close> does nothing unless the launcher has
  created the checkout. And if any command of the reconciler (a change probe, stage,
  commit, branch query or push) occurs in the trace of a run, then at the end of the run
  the launcher records that it created the checkout; for a launcher that had not created
  one before the run, this means that the run was started without the bypass flag and
  without an override path that exists. So with an existing override path the reconciler
  is never invoked, whatever the checkout contains.
\<close>

theorem reconciler_only_when_created:
  assumes "only reconcile_steps (trace_of (run env a) s) \<noteq> []"
  shows "(\<not> worktree_created (self s0) \<longrightarrow>
            handle_worktree_post_processing env s0 = (Inr (), s0)) \<and>
         worktree_created (self (snd (run env a s))) \<and>
         (\<not> worktree_created (self s) \<longrightarrow>
            \<not> arg_no_worktree a \<and>
            (\<forall>p. arg_worktree_path a = Some p \<longrightarrow> \<not> path_exists p s))"
proof (cases rule: run_cases [of s env a])
  case no_recipe
  then have "only reconcile_steps (trace_of (run env a) s) = []"
    by (simp add: only_empty_iff steps_def)
  with assms show ?thesis by simp
next
  case (no_checkout e s2)
  then have "only reconcile_steps (trace_of (run env a) s) = []"
    by (simp add: reconcile_steps_def)
  with assms show ?thesis by simp
next
  case (ran mp s2 r3 s3 s4)
  from ran(5) assms
  have "only reconcile_steps (trace_of (session env a mp) s2) \<noteq> []"
    by (simp add: reconcile_steps_def)
  then have c: "worktree_created (self s2)"
    using session_not_created [of s2 env a mp] by blast
  have o: "\<not> worktree_created (self s) \<longrightarrow>
            \<not> arg_no_worktree a \<and>
            (\<forall>p. arg_worktree_path a = Some p \<longrightarrow> \<not> path_exists p s)"
    using setup_created [of env a "entered a s"] ran(1) c by simp
  show ?thesis using c o ran(4,7) by (simp add: post_processing_not_created)
qed

theorem reconciler_only_when_created_witness:
  "only reconcile_steps (trace_of (run scripted no_flags) (stale_dir [])) \<noteq> [] \<and>
   worktree_created (self (snd (run scripted no_flags (stale_dir [])))) \<and>
   \<not> arg_no_worktree no_flags \<and> arg_worktree_path no_flags = None"
proof -
  have h: "only reconcile_steps (trace_of (run scripted no_flags) (stale_dir [])) \<noteq> []"
    using reconciling_run by (simp add: only_empty_iff reconcile_steps_def)
  show ?thesis
    using reconciler_only_when_created [OF h, of "stale_dir []"] h by (simp add: no_flags_def)
qed

section \<open>A push that fails\<close>

lemma failing_push_run:
  "only {Push} (trace_of (run scripted no_flags) (stale_dir failing_push_script)) =
     [Exec [''git'', ''push'', ''origin'', ''claude_wt''] (Completed 1 []),
      Exec [''git'', ''push'', ''--set-upstream'', ''origin'', ''claude_wt''] (Completed 1 [])]"
  by (simp add: method_defs prog_defs stale_dir_def fresh_eval no_flags_def scripted_def
        path_join_def path_exists_def json_load_def copy2_def write_file_def unlink_def
        chdir_def Let_def build_args_def run_args_def str_nat.simps classify_def strip_def
        py_isspace_def trace_of_def since_def failing_push_script_def)


text \<open>
  Claim C6. If the first push of a run (\<^verbatim>\<open>git push origin <branch>\<close>) fails, then the
  pushes of the run are exactly that one and one retry,
  \<^verbatim>\<open>git push --set-upstream origin <branch>\<close>; the run returns normally, so the exit
  status is 0; and if the retry fails as well, the warning "Failed to push changes to
  remote" is printed. No command of the reconciler follows a push, so the commit stays.
\<close>

theorem push_failure_is_soft:
  assumes "only {Push} (trace_of (run env a) s) = Exec c q # rest"
    and "returncode q \<noteq> 0"
  shows "\<exists>b q'. c = [''git'', ''push'', ''origin'', b] \<and>
           rest = [Exec [''git'', ''push'', ''--set-upstream'', ''origin'', b] q'] \<and>
           fst (run env a s) = Inr () \<and>
           exit_code (fst (run env a s)) = 0 \<and>
           (returncode q' \<noteq> 0 \<longrightarrow>
              Print YELLOW ''Warning: Failed to push changes to remote''
                \<in> set (trace_of (run env a) s))"
  using push_outcome_run [of env a s] assms
  unfolding push_outcome_def by (auto simp: exit_code_def)


theorem push_failure_is_soft_witness:
  "only {Push} (trace_of (run scripted no_flags) (stale_dir failing_push_script)) =
     Exec [''git'', ''push'', ''origin'', ''claude_wt''] (Completed 1 [])
       # [Exec [''git'', ''push'', ''--set-upstream'', ''origin'', ''claude_wt'']
            (Completed 1 [])] \<and>
   returncode (Completed 1 []) \<noteq> 0 \<and>
   fst (run scripted no_flags (stale_dir failing_push_script)) = Inr () \<and>
   exit_code (fst (run scripted no_flags (stale_dir failing_push_script))) = 0 \<and>
   Print YELLOW ''Warning: Failed to push changes to remote''
     \<in> set (trace_of (run scripted no_flags) (stale_dir failing_push_script))"
proof -
  have h: "only {Push} (trace_of (run scripted no_flags) (stale_dir failing_push_script)) =
     Exec [''git'', ''push'', ''origin'', ''claude_wt''] (Completed 1 [])
       # [Exec [''git'', ''push'', ''--set-upstream'', ''origin'', ''claude_wt'']
            (Completed 1 [])]"
    by (simp add: failing_push_run)
  have r: "returncode (Completed 1 []) \<noteq> 0" by simp
  show ?thesis
    using push_failure_is_soft [OF h r] h by auto
qed

section \<open>A checkout that cannot be created\<close>












end
